theory Spec2Isabelle
  imports Complex_Main
begin

section \<open>Meal tracker: the persistence layer of \<^verbatim>\<open>meal.py\<close>\<close>

text \<open>
  The development embeds the functions of \<^verbatim>\<open>meal.py\<close> that compute paths, load and save
  the two JSON files, prune old records, and run the ledger, suggestion and restore
  commands. Every function keeps its source name and its order of checks.

  Conventions of the embedding:
  \<^item> a Python value that came out of \<^verbatim>\<open>json.load\<close> is a \<open>json\<close>; Python's \<^verbatim>\<open>None\<close> is \<open>JNull\<close>;
  \<^item> an uncaught Python exception is the left summand of a sum (\<open>py_error + 'a\<close>);
  \<^item> the file system and the console are a \<open>world\<close>, passed in and returned;
  \<^item> what the standard library computes from the clock, the locale tables and the random
    generator (\<^verbatim>\<open>datetime.now\<close>, \<^verbatim>\<open>strptime\<close>, \<^verbatim>\<open>strftime\<close>, \<^verbatim>\<open>str.lower\<close>,
    \<^verbatim>\<open>random.choice\<close>, \<^verbatim>\<open>repr\<close>) is a field of an environment \<open>pyenv\<close>; the theorems hold
    for every environment.
\<close>

subsection \<open>Path computation (\<^verbatim>\<open>posixpath\<close>)\<close>

definition BACKUP_SUFFIX :: string where
  "BACKUP_SUFFIX = ''backup_''"

definition SUGGESTION_SUFFIX :: string where
  "SUGGESTION_SUFFIX = ''suggestion_''"

text \<open>\<^verbatim>\<open>os.path.basename(p)\<close>: the text after the last slash.\<close>

definition basename :: "string \<Rightarrow> string" where
  "basename p = rev (takeWhile (\<lambda>c. c \<noteq> CHR ''/'') (rev p))"

text \<open>
  \<^verbatim>\<open>os.path.dirname(p)\<close>: the text up to and including the last slash, with trailing
  slashes stripped unless it consists of slashes only.
\<close>

definition dirname :: "string \<Rightarrow> string" where
  "dirname p =
     (let head = rev (dropWhile (\<lambda>c. c \<noteq> CHR ''/'') (rev p))
      in if head \<noteq> [] \<and> head \<noteq> replicate (length head) (CHR ''/'')
         then rev (dropWhile (\<lambda>c. c = CHR ''/'') (rev head))
         else head)"

text \<open>One round of the loop of \<^verbatim>\<open>os.path.join\<close>, and the loop itself.\<close>

definition join_step :: "string \<Rightarrow> string \<Rightarrow> string" where
  "join_step path b =
     (if b \<noteq> [] \<and> hd b = CHR ''/'' then b
      else if path = [] \<or> last path = CHR ''/'' then path @ b
      else path @ ''/'' @ b)"

definition join :: "string \<Rightarrow> string list \<Rightarrow> string" where
  "join a ps = foldl join_step a ps"

definition get_data_file :: "bool \<Rightarrow> string option \<Rightarrow> string" where
  "get_data_file live cli_path =
     (if live then
        (case cli_path of
           None \<Rightarrow> ''./live/meals.json''
         | Some p \<Rightarrow> join (dirname p) [''live'', basename p @ ''.json''])
      else
        (case cli_path of
           None \<Rightarrow> ''./test/meals.json''
         | Some p \<Rightarrow> join (dirname p) [''test'', basename p @ ''.json'']))"

definition get_suggestion_file :: "bool \<Rightarrow> string option \<Rightarrow> string" where
  "get_suggestion_file live cli_path =
     (if live then
        (case cli_path of
           None \<Rightarrow> ''./live/suggestion.json''
         | Some p \<Rightarrow> join (dirname p) [''live'', SUGGESTION_SUFFIX @ basename p @ ''.json''])
      else
        (case cli_path of
           None \<Rightarrow> ''./test/suggestion.json''
         | Some p \<Rightarrow> join (dirname p) [''test'', SUGGESTION_SUFFIX @ basename p @ ''.json'']))"

subsection \<open>JSON values and the Python operations applied to them\<close>

text \<open>
  The Python objects \<^verbatim>\<open>json.load\<close> produces. A dict is the list of its items, each key
  once; a string is a list of characters.
\<close>

datatype json =
    JNull
  | JBool bool
  | JInt int
  | JFloat real
  | JStr string
  | JArr "json list"
  | JObj "(string \<times> json) list"

datatype py_error =
    KeyError
  | TypeError
  | ValueError
  | AttributeError
  | FileNotFoundError
  | UnicodeDecodeError
  | RecursionError

text \<open>Truth value of a Python object, as \<^verbatim>\<open>not x\<close>, \<^verbatim>\<open>if x\<close> and \<^verbatim>\<open>x or y\<close> test it.\<close>

fun truthy :: "json \<Rightarrow> bool" where
  "truthy JNull = False"
| "truthy (JBool b) = b"
| "truthy (JInt n) = (n \<noteq> 0)"
| "truthy (JFloat x) = (x \<noteq> 0)"
| "truthy (JStr s) = (s \<noteq> [])"
| "truthy (JArr xs) = (xs \<noteq> [])"
| "truthy (JObj kvs) = (kvs \<noteq> [])"

text \<open>\<^verbatim>\<open>a or b\<close>: the first operand when it is truthy, else the second.\<close>

definition py_or :: "json \<Rightarrow> json \<Rightarrow> json" where
  "py_or a b = (if truthy a then a else b)"

text \<open>\<^verbatim>\<open>v[k]\<close> with a string key: only a dict can be subscripted by a string.\<close>

fun subscript :: "json \<Rightarrow> string \<Rightarrow> py_error + json" where
  "subscript (JObj kvs) k = (case map_of kvs k of None \<Rightarrow> Inl KeyError | Some v \<Rightarrow> Inr v)"
| "subscript _ k = Inl TypeError"

text \<open>\<^verbatim>\<open>v.get(k, d)\<close>; \<^verbatim>\<open>v.get(k)\<close> is \<^verbatim>\<open>v.get(k, None)\<close>. Only a dict has the method.\<close>

fun dict_get :: "json \<Rightarrow> string \<Rightarrow> json \<Rightarrow> py_error + json" where
  "dict_get (JObj kvs) k d = Inr (case map_of kvs k of None \<Rightarrow> d | Some v \<Rightarrow> v)"
| "dict_get _ k d = Inl AttributeError"

text \<open>\<^verbatim>\<open>for x in v\<close>: a list gives its items, a dict its keys, a string its characters.\<close>

fun py_iter :: "json \<Rightarrow> py_error + json list" where
  "py_iter (JArr xs) = Inr xs"
| "py_iter (JObj kvs) = Inr (map (\<lambda>kv. JStr (fst kv)) kvs)"
| "py_iter (JStr s) = Inr (map (\<lambda>c. JStr [c]) s)"
| "py_iter _ = Inl TypeError"

text \<open>\<^verbatim>\<open>len(v)\<close>.\<close>

fun py_len :: "json \<Rightarrow> py_error + int" where
  "py_len (JArr xs) = Inr (int (length xs))"
| "py_len (JObj kvs) = Inr (int (length kvs))"
| "py_len (JStr s) = Inr (int (length s))"
| "py_len _ = Inl TypeError"

text \<open>\<^verbatim>\<open>v.append(x)\<close>: only a list has the method.\<close>

fun py_append :: "json \<Rightarrow> json \<Rightarrow> py_error + json" where
  "py_append (JArr xs) x = Inr (JArr (xs @ [x]))"
| "py_append _ x = Inl AttributeError"

text \<open>
  \<^verbatim>\<open>v.pop(i)\<close> for \<open>0 \<le> i < len(v)\<close>, the only way \<^verbatim>\<open>delete_meal\<close> calls it: the removed
  item and what is left. A dict has no integer key after \<^verbatim>\<open>json.load\<close>; a string has no
  such method.
\<close>

fun py_pop :: "json \<Rightarrow> nat \<Rightarrow> py_error + (json \<times> json)" where
  "py_pop (JArr xs) i = Inr (xs ! i, JArr (take i xs @ drop (Suc i) xs))"
| "py_pop (JObj kvs) i = Inl KeyError"
| "py_pop _ i = Inl AttributeError"

subsection \<open>The environment: clock, date library, case folding, random draw\<close>

text \<open>A \<^verbatim>\<open>datetime\<close> is a number of microseconds on one fixed time line.\<close>

type_synonym datetime = int

definition timedelta :: "int \<Rightarrow> int" where
  "timedelta days = days * 86400000000"

record pyenv =
  now :: datetime
  strptime :: "string \<Rightarrow> datetime option"
  strftime :: "datetime \<Rightarrow> string"
  lower :: "string \<Rightarrow> string"
  draw :: nat
  repr :: "json \<Rightarrow> string"
  exc_text :: "py_error \<Rightarrow> string \<Rightarrow> string"

text \<open>
  \<open>now\<close> is what \<^verbatim>\<open>datetime.now()\<close> returns during the command; \<open>strptime s\<close> is
  \<^verbatim>\<open>datetime.strptime(s, "[%Y-%m-%d]")\<close> with \<open>None\<close> for its \<^verbatim>\<open>ValueError\<close>; \<open>strftime d\<close>
  is \<^verbatim>\<open>d.strftime("[%Y-%m-%d]")\<close>; \<open>lower\<close> is \<^verbatim>\<open>str.lower\<close>; \<open>draw\<close> is the number the
  random generator produces; \<open>repr\<close> is the text an f-string gives a value that is not a
  string; \<open>exc_text e t\<close> is the text \<^verbatim>\<open>str(e)\<close> of the exception \<open>e\<close> that reading a file
  of text \<open>t\<close> raised.
\<close>

definition current_timestamp :: "pyenv \<Rightarrow> string" where
  "current_timestamp E = strftime E (now E)"

text \<open>\<^verbatim>\<open>datetime.strptime(v, "[%Y-%m-%d]")\<close> on a value: a non-string is a \<^verbatim>\<open>TypeError\<close>.\<close>

fun py_strptime :: "pyenv \<Rightarrow> json \<Rightarrow> py_error + datetime" where
  "py_strptime E (JStr s) = (case strptime E s of None \<Rightarrow> Inl ValueError | Some d \<Rightarrow> Inr d)"
| "py_strptime E _ = Inl TypeError"

text \<open>\<^verbatim>\<open>v.lower()\<close> on a value: only a string has the method.\<close>

fun py_lower :: "pyenv \<Rightarrow> json \<Rightarrow> py_error + string" where
  "py_lower E (JStr s) = Inr (lower E s)"
| "py_lower E _ = Inl AttributeError"

text \<open>\<^verbatim>\<open>random.choice(xs)\<close> on a non-empty list: the item at a drawn index below its length.\<close>

definition random_choice :: "pyenv \<Rightarrow> 'a list \<Rightarrow> 'a" where
  "random_choice E xs = xs ! (draw E mod length xs)"

text \<open>A value inside an f-string.\<close>

fun fmt :: "pyenv \<Rightarrow> json \<Rightarrow> string" where
  "fmt E (JStr s) = s"
| "fmt E v = repr E v"

text \<open>A natural number inside an f-string: its decimal digits.\<close>

fun digits :: "nat \<Rightarrow> string" where
  "digits n =
     (if n < 10 then [''0123456789'' ! n]
      else digits (n div 10) @ [''0123456789'' ! (n mod 10)])"

declare digits.simps [simp del]

subsection \<open>Files and console\<close>

text \<open>
  The bytes of a file are kept as what \<^verbatim>\<open>open(..., encoding="utf-8")\<close> and \<^verbatim>\<open>json.load\<close>
  make of them:
  \<^item> \<open>Parsed v\<close>: a text that parses to the value \<open>v\<close>;
  \<^item> \<open>Garbled t\<close>: a text \<open>t\<close> on which parsing raises \<^verbatim>\<open>JSONDecodeError\<close>;
  \<^item> \<open>Undecodable t\<close>: bytes \<open>t\<close> that are not UTF-8, on which reading raises
    \<^verbatim>\<open>UnicodeDecodeError\<close>;
  \<^item> \<open>TooDeep t\<close>: a text \<open>t\<close> nested beyond the interpreter's limit, on which parsing
    raises \<^verbatim>\<open>RecursionError\<close>.

  \<^verbatim>\<open>json.dump(v, file, indent=2)\<close> writes a text that parses to \<open>v\<close>. Directories and
  permissions are not represented: a path names a regular file or nothing, every file can
  be opened for reading and every path for writing, and copies and writes succeed.
\<close>

datatype file_content = Parsed json | Garbled string | Undecodable string | TooDeep string

record world =
  files :: "string \<rightharpoonup> file_content"
  stdout :: "string list"

definition print :: "string \<Rightarrow> world \<Rightarrow> world" where
  "print line w = w\<lparr>stdout := stdout w @ [line]\<rparr>"

definition write_file :: "string \<Rightarrow> file_content \<Rightarrow> world \<Rightarrow> world" where
  "write_file path c w = w\<lparr>files := (files w)(path \<mapsto> c)\<rparr>"

text \<open>The path both \<^verbatim>\<open>save_file\<close> and \<^verbatim>\<open>restore\<close> compute for the backup of a file.\<close>

definition backup_path :: "string \<Rightarrow> string" where
  "backup_path data_file =
     join (dirname data_file) [''backup'', BACKUP_SUFFIX @ basename data_file]"

text \<open>
  \<^verbatim>\<open>load_file\<close> catches \<^verbatim>\<open>FileNotFoundError\<close> and \<^verbatim>\<open>JSONDecodeError\<close> only: any other
  exception of the read leaves the function.
\<close>

definition load_file :: "string \<Rightarrow> world \<Rightarrow> (py_error + json) \<times> world" where
  "load_file data_file w =
     (case files w data_file of
        None \<Rightarrow> (Inr (JArr []), w)
      | Some (Parsed v) \<Rightarrow> (Inr v, w)
      | Some (Garbled t) \<Rightarrow> (Inr JNull, print ''Corrupted file. Abort loading'' w)
      | Some (Undecodable t) \<Rightarrow> (Inl UnicodeDecodeError, w)
      | Some (TooDeep t) \<Rightarrow> (Inl RecursionError, w))"

text \<open>
  \<^verbatim>\<open>save_file\<close>: \<^verbatim>\<open>os.makedirs\<close> of an empty directory name raises \<^verbatim>\<open>FileNotFoundError\<close>,
  outside both \<^verbatim>\<open>try\<close> blocks; otherwise an existing file is copied to its backup and the
  data is written.
\<close>

definition save_file :: "json \<Rightarrow> string \<Rightarrow> world \<Rightarrow> (py_error + unit) \<times> world" where
  "save_file data data_file w =
     (let directory = dirname data_file;
          backup_file = backup_path data_file
      in if directory = [] then (Inl FileNotFoundError, w)
         else
           (let w1 = (case files w data_file of
                        None \<Rightarrow> w
                      | Some c \<Rightarrow> write_file backup_file c w)
            in (Inr (), write_file data_file (Parsed data) w1)))"

subsection \<open>Pruning\<close>

text \<open>
  The list comprehension of \<^verbatim>\<open>clean_old_meals\<close>: for each item in turn, the subscript and the
  parse are evaluated (either may raise) and the item is kept when its date is not before
  the cutoff.
\<close>

fun keep_recent :: "pyenv \<Rightarrow> datetime \<Rightarrow> json list \<Rightarrow> py_error + json list" where
  "keep_recent E cutoff [] = Inr []"
| "keep_recent E cutoff (meal # rest) =
     (case subscript meal ''timestamp'' of
        Inl e \<Rightarrow> Inl e
      | Inr t \<Rightarrow>
          (case py_strptime E t of
             Inl e \<Rightarrow> Inl e
           | Inr ts \<Rightarrow>
               (case keep_recent E cutoff rest of
                  Inl e \<Rightarrow> Inl e
                | Inr kept \<Rightarrow> Inr (if cutoff \<le> ts then meal # kept else kept))))"

definition clean_old_meals :: "pyenv \<Rightarrow> json \<Rightarrow> int \<Rightarrow> py_error + json list" where
  "clean_old_meals E meals days =
     (let cutoff = now E - timedelta days
      in (case py_iter meals of
            Inl e \<Rightarrow> Inl e
          | Inr items \<Rightarrow> keep_recent E cutoff items))"

subsection \<open>The meal ledger\<close>

text \<open>
  The generator inside \<^verbatim>\<open>any(s["content"].lower() == meal.lower() for s in suggestions)\<close>:
  it stops at the first match, and raises where an earlier item has no string content.
\<close>

fun any_content_is :: "pyenv \<Rightarrow> string \<Rightarrow> json list \<Rightarrow> py_error + bool" where
  "any_content_is E meal [] = Inr False"
| "any_content_is E meal (s # rest) =
     (case subscript s ''content'' of
        Inl e \<Rightarrow> Inl e
      | Inr c \<Rightarrow>
          (case py_lower E c of
             Inl e \<Rightarrow> Inl e
           | Inr l \<Rightarrow> if l = lower E meal then Inr True else any_content_is E meal rest))"

definition add_meal ::
  "pyenv \<Rightarrow> string \<Rightarrow> string \<Rightarrow> string \<Rightarrow> string option \<Rightarrow> world \<Rightarrow> (py_error + unit) \<times> world"
where
  "add_meal E meal meal_file suggestion_file date w =
     (case load_file meal_file w of (outcome, w1) \<Rightarrow>
     (case outcome of
        Inl e \<Rightarrow> (Inl e, w1)
      | Inr loaded \<Rightarrow>
        (let meals = (if loaded = JNull then JArr [] else loaded)
         in (case clean_old_meals E meals 30 of
               Inl e \<Rightarrow> (Inl e, w1)
             | Inr kept \<Rightarrow>
                 (let entry = JObj [(''timestamp'',
                                      JStr (case date of None \<Rightarrow> current_timestamp E | Some d \<Rightarrow> d)),
                                    (''content'', JStr meal)]
                  in (case save_file (JArr (kept @ [entry])) meal_file w1 of (saved, w2) \<Rightarrow>
                        (case saved of
                           Inl e \<Rightarrow> (Inl e, w2)
                         | Inr u \<Rightarrow>
                             (let w3 = print (''Meal added: '' @ meal) w2
                              in (case load_file suggestion_file w3 of (soutcome, w4) \<Rightarrow>
                                 (case soutcome of
                                    Inl e \<Rightarrow> (Inl e, w4)
                                  | Inr sloaded \<Rightarrow>
                                    (let suggestions = (if sloaded = JNull then JArr [] else sloaded)
                                     in (case py_iter suggestions of
                                           Inl e \<Rightarrow> (Inl e, w4)
                                         | Inr items \<Rightarrow>
                                             (case any_content_is E meal items of
                                                Inl e \<Rightarrow> (Inl e, w4)
                                              | Inr found \<Rightarrow>
                                                  if found then (Inr (), w4)
                                                  else
                                                    (case py_append suggestions
                                                            (JObj [(''content'', JStr meal)]) of
                                                       Inl e \<Rightarrow> (Inl e, w4)
                                                     | Inr suggestions' \<Rightarrow>
                                                         save_file suggestions' suggestion_file
                                                           w4))))))))))))))"

text \<open>
  The expression \<^verbatim>\<open>item.get(k1) or item.get(k2) or 'sentinel'\<close> of \<^verbatim>\<open>list_meals\<close> and
  \<^verbatim>\<open>delete_meal\<close>.
\<close>

definition display_field :: "json \<Rightarrow> string \<Rightarrow> string \<Rightarrow> string \<Rightarrow> py_error + json" where
  "display_field item new_key old_key sentinel =
     (case dict_get item new_key JNull of
        Inl e \<Rightarrow> Inl e
      | Inr a \<Rightarrow>
          if truthy a then Inr a
          else (case dict_get item old_key JNull of
                  Inl e \<Rightarrow> Inl e
                | Inr b \<Rightarrow> Inr (py_or b (JStr sentinel))))"

text \<open>The loop of \<^verbatim>\<open>list_meals\<close> over \<^verbatim>\<open>enumerate(data, 1)\<close>, from row number \<open>i\<close> on.\<close>

fun list_meals_loop :: "pyenv \<Rightarrow> nat \<Rightarrow> json list \<Rightarrow> world \<Rightarrow> (py_error + unit) \<times> world" where
  "list_meals_loop E i [] w = (Inr (), w)"
| "list_meals_loop E i (item # rest) w =
     (case display_field item ''timestamp'' ''date'' ''unknown date'' of
        Inl e \<Rightarrow> (Inl e, w)
      | Inr timestamp \<Rightarrow>
          (case display_field item ''content'' ''meal'' ''unknown meal'' of
             Inl e \<Rightarrow> (Inl e, w)
           | Inr content \<Rightarrow>
               list_meals_loop E (Suc i) rest
                 (print (digits i @ ''. '' @ fmt E timestamp @ '' - '' @ fmt E content) w)))"

definition list_meals :: "pyenv \<Rightarrow> string \<Rightarrow> world \<Rightarrow> (py_error + unit) \<times> world" where
  "list_meals E data_file w =
     (case load_file data_file w of (outcome, w1) \<Rightarrow>
     (case outcome of
        Inl e \<Rightarrow> (Inl e, w1)
      | Inr data \<Rightarrow>
          if \<not> truthy data then (Inr (), print ''No meals found'' w1)
          else (case py_iter data of
                  Inl e \<Rightarrow> (Inl e, w1)
                | Inr items \<Rightarrow> list_meals_loop E 1 items w1)))"

definition delete_meal :: "pyenv \<Rightarrow> int \<Rightarrow> string \<Rightarrow> world \<Rightarrow> (py_error + unit) \<times> world" where
  "delete_meal E index data_file w =
     (case load_file data_file w of (outcome, w1) \<Rightarrow>
     (case outcome of
        Inl e \<Rightarrow> (Inl e, w1)
      | Inr data \<Rightarrow>
        if 0 < index then
          (case py_len data of
             Inl e \<Rightarrow> (Inl e, w1)
           | Inr n \<Rightarrow>
               if index \<le> n then
                 (case py_pop data (nat (index - 1)) of
                    Inl e \<Rightarrow> (Inl e, w1)
                  | Inr (removed, data') \<Rightarrow>
                      (case save_file data' data_file w1 of (saved, w2) \<Rightarrow>
                         (case saved of
                            Inl e \<Rightarrow> (Inl e, w2)
                          | Inr u \<Rightarrow>
                              (case display_field removed ''content'' ''meal'' ''unknown meal'' of
                                 Inl e \<Rightarrow> (Inl e, w2)
                               | Inr meal_name \<Rightarrow>
                                   (Inr (), print (''Deleted meal '' @ digits (nat index) @ '': ''
                                                   @ fmt E meal_name) w2)))))
               else (Inr (), print ''Invalid meal number'' w1))
        else (Inr (), print ''Invalid meal number'' w1)))"

definition delete_all :: "string \<Rightarrow> world \<Rightarrow> (py_error + unit) \<times> world" where
  "delete_all data_file w =
     (case save_file (JArr []) data_file w of (saved, w1) \<Rightarrow>
        (case saved of
           Inl e \<Rightarrow> (Inl e, w1)
         | Inr u \<Rightarrow> (Inr (), print ''Deleted all meals'' w1)))"

subsection \<open>Restore\<close>

text \<open>
  The statements of the \<^verbatim>\<open>try\<close> block run in order; a backup that is missing or cannot
  be read leaves through the handler of its exception, which prints one line and keeps
  what was written before.
\<close>

text \<open>
  What opening and parsing the backup at \<open>path\<close> gives inside the \<^verbatim>\<open>try\<close> block of
  \<^verbatim>\<open>restore\<close>: the value, or the line the handler of the raised exception prints
  (\<^verbatim>\<open>FileNotFoundError\<close>, \<^verbatim>\<open>JSONDecodeError\<close>, and \<^verbatim>\<open>Exception\<close> for the rest).
\<close>

definition read_backup :: "pyenv \<Rightarrow> string \<Rightarrow> world \<Rightarrow> string + json" where
  "read_backup E path w =
     (case files w path of
        None \<Rightarrow> Inl ''No file to restore from''
      | Some (Parsed v) \<Rightarrow> Inr v
      | Some (Garbled t) \<Rightarrow> Inl ''Corrupted file. Abort restoring''
      | Some (Undecodable t) \<Rightarrow>
          Inl (''Error restoring data: '' @ exc_text E UnicodeDecodeError t)
      | Some (TooDeep t) \<Rightarrow>
          Inl (''Error restoring data: '' @ exc_text E RecursionError t))"

definition restore :: "pyenv \<Rightarrow> string \<Rightarrow> string \<Rightarrow> world \<Rightarrow> world" where
  "restore E data_file suggestion_file w =
     (let data_backup_file = backup_path data_file;
          suggestion_backup_file = backup_path suggestion_file
      in (case read_backup E data_backup_file w of
            Inl line \<Rightarrow> print line w
          | Inr data \<Rightarrow>
              (let w1 = write_file data_file (Parsed data) w
               in (case read_backup E suggestion_backup_file w1 of
                     Inl line \<Rightarrow> print line w1
                   | Inr data2 \<Rightarrow>
                       print ''Successfully restored.''
                         (write_file suggestion_file (Parsed data2) w1)))))"

subsection \<open>The suggestion book\<close>

text \<open>The loop of \<^verbatim>\<open>suggest_meal\<close> that fills the set \<^verbatim>\<open>recent_names\<close>.\<close>

fun recent_names_loop ::
  "pyenv \<Rightarrow> datetime \<Rightarrow> json list \<Rightarrow> string set \<Rightarrow> py_error + string set"
where
  "recent_names_loop E recent_cutoff [] recent_names = Inr recent_names"
| "recent_names_loop E recent_cutoff (meal # rest) recent_names =
     (case subscript meal ''timestamp'' of
        Inl e \<Rightarrow> Inl e
      | Inr t \<Rightarrow>
          (case py_strptime E t of
             Inl e \<Rightarrow> Inl e
           | Inr ts \<Rightarrow>
               if recent_cutoff \<le> ts then
                 (case subscript meal ''content'' of
                    Inl e \<Rightarrow> Inl e
                  | Inr c \<Rightarrow>
                      (case py_lower E c of
                         Inl e \<Rightarrow> Inl e
                       | Inr l \<Rightarrow> recent_names_loop E recent_cutoff rest (insert l recent_names)))
               else recent_names_loop E recent_cutoff rest recent_names))"

text \<open>
  The comprehension
  \<^verbatim>\<open>[m["content"] for m in suggestions if m["content"].lower() not in recent_names]\<close>.
\<close>

fun eligible_of :: "pyenv \<Rightarrow> string set \<Rightarrow> json list \<Rightarrow> py_error + json list" where
  "eligible_of E recent_names [] = Inr []"
| "eligible_of E recent_names (m # rest) =
     (case subscript m ''content'' of
        Inl e \<Rightarrow> Inl e
      | Inr c \<Rightarrow>
          (case py_lower E c of
             Inl e \<Rightarrow> Inl e
           | Inr l \<Rightarrow>
               (case eligible_of E recent_names rest of
                  Inl e \<Rightarrow> Inl e
                | Inr es \<Rightarrow> Inr (if l \<notin> recent_names then c # es else es))))"

definition no_meal_found :: string where
  "no_meal_found = ''No meal found that hasn'' @ [CHR 0x27] @ ''t been eaten in the last 2 weeks.''"

definition suggest_meal :: "pyenv \<Rightarrow> string \<Rightarrow> string \<Rightarrow> world \<Rightarrow> (py_error + unit) \<times> world" where
  "suggest_meal E meal_file suggestion_file w =
     (case load_file meal_file w of (outcome, w1) \<Rightarrow>
     (case outcome of
        Inl e \<Rightarrow> (Inl e, w1)
      | Inr recent_meals \<Rightarrow>
     (case load_file suggestion_file w1 of (soutcome, w2) \<Rightarrow>
     (case soutcome of
        Inl e \<Rightarrow> (Inl e, w2)
      | Inr suggestions \<Rightarrow>
        if suggestions = JNull \<or> \<not> truthy suggestions
        then (Inr (), print ''No suggestions available.'' w2)
        else
          (let recent_cutoff = now E - timedelta 14
           in (case (if truthy recent_meals
                     then (case py_iter recent_meals of
                             Inl e \<Rightarrow> Inl e
                           | Inr ms \<Rightarrow> recent_names_loop E recent_cutoff ms {})
                     else Inr {}) of
                 Inl e \<Rightarrow> (Inl e, w2)
               | Inr recent_names \<Rightarrow>
                   (case py_iter suggestions of
                      Inl e \<Rightarrow> (Inl e, w2)
                    | Inr ss \<Rightarrow>
                        (case eligible_of E recent_names ss of
                           Inl e \<Rightarrow> (Inl e, w2)
                         | Inr eligible \<Rightarrow>
                             if eligible \<noteq> []
                             then (Inr (), print (''Suggested meal: ''
                                                  @ fmt E (random_choice E eligible)) w2)
                             else (Inr (), print no_meal_found w2)))))))))"

definition add_suggestion :: "pyenv \<Rightarrow> string \<Rightarrow> string \<Rightarrow> world \<Rightarrow> (py_error + unit) \<times> world" where
  "add_suggestion E meal suggestion_file w =
     (case load_file suggestion_file w of (outcome, w1) \<Rightarrow>
     (case outcome of
        Inl e \<Rightarrow> (Inl e, w1)
      | Inr loaded \<Rightarrow>
        (let suggestions = (if loaded = JNull then JArr [] else loaded)
         in (case py_iter suggestions of
               Inl e \<Rightarrow> (Inl e, w1)
             | Inr items \<Rightarrow>
                 (case any_content_is E meal items of
                    Inl e \<Rightarrow> (Inl e, w1)
                  | Inr found \<Rightarrow>
                      if found
                      then (Inr (), print (''Suggestion '' @ [CHR 0x27] @ meal @ [CHR 0x27]
                                           @ '' already exists.'') w1)
                      else
                        (case py_append suggestions (JObj [(''content'', JStr meal)]) of
                           Inl e \<Rightarrow> (Inl e, w1)
                         | Inr suggestions' \<Rightarrow>
                             (case save_file suggestions' suggestion_file w1 of (saved, w2) \<Rightarrow>
                                (case saved of
                                   Inl e \<Rightarrow> (Inl e, w2)
                                 | Inr u \<Rightarrow>
                                     (Inr (), print (''Added suggestion: '' @ meal) w2)))))))))"

text \<open>The loop of \<^verbatim>\<open>list_suggestions\<close> over \<^verbatim>\<open>enumerate(suggestions, 1)\<close>.\<close>

fun list_suggestions_loop ::
  "pyenv \<Rightarrow> nat \<Rightarrow> json list \<Rightarrow> world \<Rightarrow> (py_error + unit) \<times> world"
where
  "list_suggestions_loop E i [] w = (Inr (), w)"
| "list_suggestions_loop E i (s # rest) w =
     (case dict_get s ''content'' (JStr ''unknown'') of
        Inl e \<Rightarrow> (Inl e, w)
      | Inr c \<Rightarrow> list_suggestions_loop E (Suc i) rest (print (digits i @ ''. '' @ fmt E c) w))"

definition list_suggestions :: "pyenv \<Rightarrow> string \<Rightarrow> world \<Rightarrow> (py_error + unit) \<times> world" where
  "list_suggestions E suggestion_file w =
     (case load_file suggestion_file w of (outcome, w1) \<Rightarrow>
     (case outcome of
        Inl e \<Rightarrow> (Inl e, w1)
      | Inr suggestions \<Rightarrow>
          if \<not> truthy suggestions then (Inr (), print ''No suggestions found.'' w1)
          else (case py_iter suggestions of
                  Inl e \<Rightarrow> (Inl e, w1)
                | Inr items \<Rightarrow> list_suggestions_loop E 1 items w1)))"

subsection \<open>Vocabulary of the statements\<close>

text \<open>
  The date a record carries, when it is a dict whose \<^verbatim>\<open>timestamp\<close> is a string the date
  library parses; and its content, when it is a dict whose \<^verbatim>\<open>content\<close> is a string.
\<close>

definition parsed_timestamp :: "pyenv \<Rightarrow> json \<Rightarrow> datetime option" where
  "parsed_timestamp E m =
     (case subscript m ''timestamp'' of
        Inr (JStr s) \<Rightarrow> strptime E s
      | _ \<Rightarrow> None)"

definition content_of :: "json \<Rightarrow> string option" where
  "content_of m =
     (case subscript m ''content'' of
        Inr (JStr c) \<Rightarrow> Some c
      | _ \<Rightarrow> None)"

definition content_text :: "json \<Rightarrow> string" where
  "content_text m = (case content_of m of Some c \<Rightarrow> c | None \<Rightarrow> [])"

definition is_dict :: "json \<Rightarrow> bool" where
  "is_dict v = (case v of JObj kvs \<Rightarrow> True | _ \<Rightarrow> False)"

text \<open>The dicts the program itself builds: a ledger entry and a suggestion.\<close>

definition meal_record :: "string \<Rightarrow> string \<Rightarrow> json" where
  "meal_record ts c = JObj [(''timestamp'', JStr ts), (''content'', JStr c)]"

definition suggestion_record :: "string \<Rightarrow> json" where
  "suggestion_record c = JObj [(''content'', JStr c)]"

text \<open>A record is within \<open>days\<close> days when its date is not before \<open>now - days\<close>.\<close>

definition within_days :: "pyenv \<Rightarrow> int \<Rightarrow> json \<Rightarrow> bool" where
  "within_days E days m =
     (case parsed_timestamp E m of
        Some ts \<Rightarrow> now E - timedelta days \<le> ts
      | None \<Rightarrow> False)"



text \<open>Case-insensitive equality of a suggestion's content with a text.\<close>

definition matches :: "pyenv \<Rightarrow> string \<Rightarrow> json \<Rightarrow> bool" where
  "matches E x s = (lower E (content_text s) = lower E x)"

text \<open>
  The field a row shows, in the words of the data model (\<open>spec_field\<close>: the new key
  whenever it is present, else the legacy key, else the sentinel), and as the \<^verbatim>\<open>or\<close> chain
  selects it (\<open>shown_field\<close>: a key counts only when its value is truthy).
\<close>

definition spec_field :: "(string \<times> json) list \<Rightarrow> string \<Rightarrow> string \<Rightarrow> string \<Rightarrow> json" where
  "spec_field kvs new_key old_key sentinel =
     (case map_of kvs new_key of
        Some v \<Rightarrow> v
      | None \<Rightarrow> (case map_of kvs old_key of Some v \<Rightarrow> v | None \<Rightarrow> JStr sentinel))"

definition present_truthy :: "(string \<times> json) list \<Rightarrow> string \<Rightarrow> bool" where
  "present_truthy kvs k = (case map_of kvs k of Some v \<Rightarrow> truthy v | None \<Rightarrow> False)"

definition value_at :: "(string \<times> json) list \<Rightarrow> string \<Rightarrow> json" where
  "value_at kvs k = (case map_of kvs k of Some v \<Rightarrow> v | None \<Rightarrow> JNull)"

definition shown_field :: "json \<Rightarrow> string \<Rightarrow> string \<Rightarrow> string \<Rightarrow> json" where
  "shown_field item new_key old_key sentinel =
     (case item of
        JObj kvs \<Rightarrow>
          if present_truthy kvs new_key then value_at kvs new_key
          else if present_truthy kvs old_key then value_at kvs old_key
          else JStr sentinel
      | _ \<Rightarrow> JStr sentinel)"

text \<open>The row \<^verbatim>\<open>list_meals\<close> prints for the record at 0-based position \<open>i\<close>.\<close>

definition meal_row :: "pyenv \<Rightarrow> nat \<Rightarrow> json \<Rightarrow> string" where
  "meal_row E i item =
     digits (Suc i) @ ''. '' @ fmt E (shown_field item ''timestamp'' ''date'' ''unknown date'')
       @ '' - '' @ fmt E (shown_field item ''content'' ''meal'' ''unknown meal'')"

definition spec_meal_row :: "pyenv \<Rightarrow> nat \<Rightarrow> (string \<times> json) list \<Rightarrow> string" where
  "spec_meal_row E i kvs =
     digits (Suc i) @ ''. '' @ fmt E (spec_field kvs ''timestamp'' ''date'' ''unknown date'')
       @ '' - '' @ fmt E (spec_field kvs ''content'' ''meal'' ''unknown meal'')"

subsection \<open>An environment for concrete runs\<close>

text \<open>
  The clock reads noon of 2024-03-15. The date library is given on the twelve-character
  stamps \<^verbatim>\<open>[YYYY-MM-DD]\<close> the program writes (days counted from 1970-01-01 in the
  proleptic Gregorian calendar), case folding on the ASCII letters.
\<close>

definition digit_of :: "char \<Rightarrow> int option" where
  "digit_of c = map_of (zip ''0123456789'' [0, 1, 2, 3, 4, 5, 6, 7, 8, 9]) c"

definition two_digits :: "char \<Rightarrow> char \<Rightarrow> int option" where
  "two_digits a b =
     (case digit_of a of
        None \<Rightarrow> None
      | Some x \<Rightarrow> (case digit_of b of None \<Rightarrow> None | Some y \<Rightarrow> Some (10 * x + y)))"

definition leap_year :: "int \<Rightarrow> bool" where
  "leap_year y = (y mod 4 = 0 \<and> (y mod 100 \<noteq> 0 \<or> y mod 400 = 0))"

definition days_in_month :: "int \<Rightarrow> int \<Rightarrow> int" where
  "days_in_month y m =
     (if m = 2 then (if leap_year y then 29 else 28)
      else if m = 4 \<or> m = 6 \<or> m = 9 \<or> m = 11 then 30
      else 31)"

definition days_from_civil :: "int \<Rightarrow> int \<Rightarrow> int \<Rightarrow> int" where
  "days_from_civil y m d =
     (let y' = (if m \<le> 2 then y - 1 else y);
          era = y' div 400;
          yoe = y' - era * 400;
          mp = (m + 9) mod 12;
          doy = (153 * mp + 2) div 5 + d - 1;
          doe = yoe * 365 + yoe div 4 - yoe div 100 + doy
      in era * 146097 + doe - 719468)"

definition stamp_datetime :: "string \<Rightarrow> datetime option" where
  "stamp_datetime s =
     (if length s = 12 \<and> s ! 0 = CHR ''['' \<and> s ! 5 = CHR ''-'' \<and> s ! 8 = CHR ''-''
         \<and> s ! 11 = CHR '']''
      then
        (case two_digits (s ! 1) (s ! 2) of
           None \<Rightarrow> None
         | Some c \<Rightarrow>
             (case two_digits (s ! 3) (s ! 4) of
                None \<Rightarrow> None
              | Some y2 \<Rightarrow>
                  (case two_digits (s ! 6) (s ! 7) of
                     None \<Rightarrow> None
                   | Some m \<Rightarrow>
                       (case two_digits (s ! 9) (s ! 10) of
                          None \<Rightarrow> None
                        | Some d \<Rightarrow>
                            (let y = 100 * c + y2
                             in if 1 \<le> y \<and> 1 \<le> m \<and> m \<le> 12 \<and> 1 \<le> d \<and> d \<le> days_in_month y m
                                then Some (timedelta (days_from_civil y m d))
                                else None)))))
      else None)"

definition ascii_lower :: "string \<Rightarrow> string" where
  "ascii_lower s =
     map (\<lambda>c. case map_of (zip ''ABCDEFGHIJKLMNOPQRSTUVWXYZ'' ''abcdefghijklmnopqrstuvwxyz'') c of
                 None \<Rightarrow> c
               | Some l \<Rightarrow> l) s"

definition demo_env :: pyenv where
  "demo_env =
     \<lparr> now = timedelta (days_from_civil 2024 3 15) + 43200000000,
       strptime = stamp_datetime,
       strftime = (\<lambda>d. ''[2024-03-15]''),
       lower = ascii_lower,
       draw = 0,
       repr = (\<lambda>v. ''?''),
       exc_text = (\<lambda>e t. ''cannot read'') \<rparr>"

text \<open>A world holding the listed files, with nothing printed yet.\<close>

definition world_of :: "(string \<times> file_content) list \<Rightarrow> world" where
  "world_of fs = \<lparr>files = map_of fs, stdout = []\<rparr>"

section \<open>Properties\<close>

subsection \<open>Frame facts of the store\<close>

lemma files_print [simp]: "files (print line w) = files w"
  by (simp add: print_def)

lemma stdout_print [simp]: "stdout (print line w) = stdout w @ [line]"
  by (simp add: print_def)

lemma files_write_file [simp]: "files (write_file p c w) = (files w)(p \<mapsto> c)"
  by (simp add: write_file_def)

lemma stdout_write_file [simp]: "stdout (write_file p c w) = stdout w"
  by (simp add: write_file_def)

lemma files_load_file [simp]: "files (snd (load_file p w)) = files w"
  by (simp add: load_file_def split: option.splits file_content.splits)

lemma load_file_missing: "files w p = None \<Longrightarrow> load_file p w = (Inr (JArr []), w)"
  by (simp add: load_file_def)

lemma load_file_parsed: "files w p = Some (Parsed v) \<Longrightarrow> load_file p w = (Inr v, w)"
  by (simp add: load_file_def)

lemma load_file_garbled:
  "files w p = Some (Garbled t) \<Longrightarrow>
   load_file p w = (Inr JNull, print ''Corrupted file. Abort loading'' w)"
  by (simp add: load_file_def)



lemma load_file_list:
  "fst (load_file p w) = Inr (JArr xs) \<Longrightarrow> load_file p w = (Inr (JArr xs), w)"
  by (auto simp: load_file_def split: option.splits file_content.splits)

lemma save_file_ok:
  "dirname p \<noteq> [] \<Longrightarrow>
   save_file d p w =
     (Inr (), write_file p (Parsed d)
                (case files w p of None \<Rightarrow> w | Some c \<Rightarrow> write_file (backup_path p) c w))"
  by (simp add: save_file_def Let_def)

lemma save_file_no_dir: "dirname p = [] \<Longrightarrow> save_file d p w = (Inl FileNotFoundError, w)"
  by (simp add: save_file_def Let_def)

subsection \<open>Commands that only read\<close>

lemma list_meals_loop_files: "files (snd (list_meals_loop E i xs w)) = files w"
  by (induction xs arbitrary: i w) (auto split: sum.splits)

lemma list_suggestions_loop_files: "files (snd (list_suggestions_loop E i xs w)) = files w"
  by (induction xs arbitrary: i w) (auto split: sum.splits)

lemma list_meals_files: "files (snd (list_meals E p w)) = files w"
  by (simp add: list_meals_def case_prod_beta list_meals_loop_files split: sum.splits)

lemma list_suggestions_files: "files (snd (list_suggestions E p w)) = files w"
  by (simp add: list_suggestions_def case_prod_beta list_suggestions_loop_files split: sum.splits)

lemma suggest_meal_files: "files (snd (suggest_meal E mf sf w)) = files w"
  by (simp add: suggest_meal_def Let_def case_prod_beta split: sum.splits)

text \<open>
  Claim C10. Whatever the files hold (missing, empty, unparsable, or any JSON value), and
  whether the command returns or raises, \<^verbatim>\<open>list_meals\<close>, \<^verbatim>\<open>list_suggestions\<close> and
  \<^verbatim>\<open>suggest_meal\<close> leave the whole file map as it was: the ledger, the suggestion file and
  both backups have the same contents after the command as before it.
\<close>

theorem read_only_commands_write_nothing:
  "files (snd (list_meals E data_file w)) = files w \<and>
   files (snd (list_suggestions E suggestion_file w)) = files w \<and>
   files (snd (suggest_meal E meal_file suggestion_file' w)) = files w"
  by (simp add: list_meals_files list_suggestions_files suggest_meal_files)

subsection \<open>Path of the suggestion file\<close>

text \<open>
  Claim C3, as stated, at the default path: the claim names the data file's name with the
  prefix \<^verbatim>\<open>suggestion_\<close>, that is \<^verbatim>\<open>./live/suggestion_meals.json\<close>, while the function
  returns \<^verbatim>\<open>./live/suggestion.json\<close> (and likewise under \<^verbatim>\<open>./test/\<close>).
\<close>

theorem get_suggestion_file_default_counterexample:
  "get_data_file True None = ''./live/meals.json'' \<and>
   get_suggestion_file True None = ''./live/suggestion.json'' \<and>
   get_suggestion_file True None \<noteq> ''./live/suggestion_meals.json'' \<and>
   get_suggestion_file False None \<noteq> ''./test/suggestion_meals.json''"
  by (simp add: get_data_file_def get_suggestion_file_def)

text \<open>
  Claim C3, amended. Without a base path the suggestion file is \<^verbatim>\<open>./live/suggestion.json\<close>
  or \<^verbatim>\<open>./test/suggestion.json\<close>. With a base path \<open>p\<close> it is the join of the directory of
  \<open>p\<close>, \<^verbatim>\<open>live\<close> or \<^verbatim>\<open>test\<close>, and \<^verbatim>\<open>suggestion_<basename p>.json\<close>: the directory, a slash
  unless the directory is empty or ends in one, then \<^verbatim>\<open>live/\<close> or \<^verbatim>\<open>test/\<close> and the file
  name.
\<close>

theorem get_suggestion_file_paths:
  "get_suggestion_file live None =
     (if live then ''./live/suggestion.json'' else ''./test/suggestion.json'') \<and>
   get_suggestion_file live (Some p) =
     join (dirname p)
       [if live then ''live'' else ''test'', ''suggestion_'' @ basename p @ ''.json''] \<and>
   get_suggestion_file live (Some p) =
     (if dirname p = [] \<or> last (dirname p) = CHR ''/'' then dirname p else dirname p @ ''/'')
       @ (if live then ''live'' else ''test'') @ ''/suggestion_'' @ basename p @ ''.json''"
  by (simp add: get_suggestion_file_def SUGGESTION_SUFFIX_def join_def join_step_def)

subsection \<open>Pruning\<close>

lemmas demo_simps =
  demo_env_def stamp_datetime_def two_digits_def digit_of_def days_in_month_def leap_year_def
  days_from_civil_def timedelta_def ascii_lower_def meal_record_def suggestion_record_def

lemma parsed_timestamp_SomeD:
  "parsed_timestamp E m = Some t \<Longrightarrow>
   \<exists>s. subscript m ''timestamp'' = Inr (JStr s) \<and> strptime E s = Some t"
  by (auto simp: parsed_timestamp_def split: sum.splits json.splits)

lemma parsed_timestamp_NoneD:
  "parsed_timestamp E m = None \<Longrightarrow>
   (\<exists>e. subscript m ''timestamp'' = Inl e) \<or>
   (\<exists>t. subscript m ''timestamp'' = Inr t \<and> (\<exists>e. py_strptime E t = Inl e))"
  by (cases "subscript m ''timestamp''")
     (auto simp: parsed_timestamp_def split: json.splits)

lemma keep_recent_all_parsed:
  "\<forall>m\<in>set xs. parsed_timestamp E m \<noteq> None \<Longrightarrow>
   keep_recent E (now E - timedelta days) xs = Inr (filter (within_days E days) xs)"
proof (induction xs)
  case Nil
  then show ?case by simp
next
  case (Cons m xs)
  then obtain t where t: "parsed_timestamp E m = Some t" by auto
  then obtain s where s: "subscript m ''timestamp'' = Inr (JStr s)" "strptime E s = Some t"
    using parsed_timestamp_SomeD by blast
  from Cons have rest: "keep_recent E (now E - timedelta days) xs = Inr (filter (within_days E days) xs)"
    by simp
  have m: "within_days E days m = (now E - timedelta days \<le> t)"
    by (simp add: within_days_def t)
  show ?case
    by (simp add: s rest m)
qed

lemma keep_recent_unparsed:
  "m \<in> set xs \<Longrightarrow> parsed_timestamp E m = None \<Longrightarrow> \<exists>e. keep_recent E c xs = Inl e"
proof (induction xs)
  case Nil
  then show ?case by simp
next
  case (Cons x xs)
  show ?case
  proof (cases "x = m")
    case True
    with Cons.prems parsed_timestamp_NoneD [of E m] show ?thesis
      by (auto split: sum.splits)
  next
    case False
    with Cons obtain e where "keep_recent E c xs = Inl e" by auto
    then show ?thesis
      by (auto split: sum.splits)
  qed
qed

lemma clean_old_meals_list:
  "clean_old_meals E (JArr xs) days = keep_recent E (now E - timedelta days) xs"
  by (simp add: clean_old_meals_def)

lemma add_meal_unparsed:
  assumes "files w meal_file = Some (Parsed (JArr meals))"
      and "m \<in> set meals" and "parsed_timestamp E m = None"
  shows "\<exists>e. add_meal E meal meal_file suggestion_file date w = (Inl e, w)"
proof -
  obtain e where "keep_recent E (now E - timedelta 30) meals = Inl e"
    using keep_recent_unparsed [OF assms(2,3)] by blast
  then show ?thesis
    by (simp add: add_meal_def load_file_parsed [OF assms(1)] clean_old_meals_list)
qed

text \<open>
  Claim C6. On a list whose records all carry a timestamp the date library parses,
  \<^verbatim>\<open>clean_old_meals\<close> returns exactly the records whose date is not before
  \<open>now - days\<close>, in their order (\<^verbatim>\<open>add_meal\<close> calls it with the default of 30 days).
  When some record's timestamp does not parse, the function raises, and \<^verbatim>\<open>add_meal\<close> on
  such a ledger raises before it prints or writes anything.
\<close>

theorem clean_old_meals_keeps_exactly_recent:
  "((\<forall>m\<in>set meals. parsed_timestamp E m \<noteq> None) \<longrightarrow>
      clean_old_meals E (JArr meals) days = Inr (filter (within_days E days) meals)) \<and>
   ((\<exists>m\<in>set meals. parsed_timestamp E m = None) \<longrightarrow>
      (\<exists>e. clean_old_meals E (JArr meals) days = Inl e) \<and>
      (files w meal_file = Some (Parsed (JArr meals)) \<longrightarrow>
         (\<exists>e. add_meal E meal meal_file suggestion_file date w = (Inl e, w))))"
  using keep_recent_all_parsed [of meals E days] keep_recent_unparsed [of _ meals E]
        add_meal_unparsed [of w meal_file meals _ E]
  by (auto simp: clean_old_meals_list)

text \<open>
  At noon of 2024-03-15 the cutoff is noon of 2024-02-14: the record of 02-15 stays, the
  one of 02-14 goes; a ledger with the stamp \<^verbatim>\<open>01/03/2024\<close> stops \<^verbatim>\<open>add_meal\<close>.
\<close>

theorem clean_old_meals_keeps_exactly_recent_witness:
  "clean_old_meals demo_env
     (JArr [meal_record ''[2024-02-15]'' ''soup'', meal_record ''[2024-02-14]'' ''stew'',
            meal_record ''[2024-03-01]'' ''rice'']) 30
     = Inr [meal_record ''[2024-02-15]'' ''soup'', meal_record ''[2024-03-01]'' ''rice''] \<and>
   (\<exists>e. clean_old_meals demo_env
           (JArr [meal_record ''[2024-03-01]'' ''rice'', meal_record ''01/03/2024'' ''soup'']) 30
         = Inl e) \<and>
   (\<exists>e. add_meal demo_env ''eggs'' ''./test/meals.json'' ''./test/suggestion.json'' None
           \<lparr>files = [''./test/meals.json'' \<mapsto>
                       Parsed (JArr [meal_record ''[2024-03-01]'' ''rice'',
                                     meal_record ''01/03/2024'' ''soup''])],
            stdout = []\<rparr>
         = (Inl e, \<lparr>files = [''./test/meals.json'' \<mapsto>
                       Parsed (JArr [meal_record ''[2024-03-01]'' ''rice'',
                                     meal_record ''01/03/2024'' ''soup''])],
            stdout = []\<rparr>))"
proof -
  let ?good = "[meal_record ''[2024-02-15]'' ''soup'', meal_record ''[2024-02-14]'' ''stew'',
                meal_record ''[2024-03-01]'' ''rice'']"
  let ?bad = "[meal_record ''[2024-03-01]'' ''rice'', meal_record ''01/03/2024'' ''soup'']"
  let ?w = "\<lparr>files = [''./test/meals.json'' \<mapsto> Parsed (JArr ?bad)], stdout = []\<rparr>"
  have all_parse: "\<forall>m\<in>set ?good. parsed_timestamp demo_env m \<noteq> None"
    by (simp add: parsed_timestamp_def demo_simps)
  have one_fails: "\<exists>m\<in>set ?bad. parsed_timestamp demo_env m = None"
    by (simp add: parsed_timestamp_def demo_simps)
  have in_file: "files ?w ''./test/meals.json'' = Some (Parsed (JArr ?bad))"
    by simp
  have kept: "filter (within_days demo_env 30) ?good
              = [meal_record ''[2024-02-15]'' ''soup'', meal_record ''[2024-03-01]'' ''rice'']"
    by (simp add: within_days_def parsed_timestamp_def demo_simps)
  from all_parse kept
    clean_old_meals_keeps_exactly_recent [where meals = ?good and E = demo_env and days = 30]
  have first: "clean_old_meals demo_env (JArr ?good) 30
               = Inr [meal_record ''[2024-02-15]'' ''soup'', meal_record ''[2024-03-01]'' ''rice'']"
    by simp
  from one_fails in_file
    clean_old_meals_keeps_exactly_recent
      [where meals = ?bad and E = demo_env and days = 30 and w = ?w
         and meal_file = "''./test/meals.json''" and meal = "''eggs''"
         and suggestion_file = "''./test/suggestion.json''" and date = None]
  have second: "(\<exists>e. clean_old_meals demo_env (JArr ?bad) 30 = Inl e) \<and>
     (\<exists>e. add_meal demo_env ''eggs'' ''./test/meals.json'' ''./test/suggestion.json'' None ?w
           = (Inl e, ?w))"
    by blast
  from first second show ?thesis by blast
qed

subsection \<open>Concrete paths\<close>

lemmas path_simps =
  get_data_file_def get_suggestion_file_def backup_path_def dirname_def basename_def join_def
  join_step_def BACKUP_SUFFIX_def SUGGESTION_SUFFIX_def

lemma default_paths:
  "get_data_file False None = ''./test/meals.json''"
  "get_suggestion_file False None = ''./test/suggestion.json''"
  "backup_path ''./test/meals.json'' = ''./test/backup/backup_meals.json''"
  "backup_path ''./test/suggestion.json'' = ''./test/backup/backup_suggestion.json''"
  "dirname ''./test/meals.json'' = ''./test''"
  "dirname ''./test/suggestion.json'' = ''./test''"
  by (simp_all add: path_simps)

subsection \<open>Adding to and deleting from the ledger\<close>

lemma fst_load_file_same_files:
  "files w' = files w \<Longrightarrow> fst (load_file p w') = fst (load_file p w)"
  by (simp add: load_file_def split: option.splits file_content.splits)

lemma save_file_files_other:
  "p \<noteq> q \<Longrightarrow> p \<noteq> backup_path q \<Longrightarrow> files (snd (save_file d q w)) p = files w p"
  by (simp add: save_file_def Let_def split: option.splits)

lemma add_meal_writes_ledger:
  assumes "fst (load_file mf w) = Inr loaded"
      and "clean_old_meals E (if loaded = JNull then JArr [] else loaded) 30 = Inr kept"
      and "dirname mf \<noteq> []" and "mf \<noteq> sf" and "mf \<noteq> backup_path sf"
  shows "files (snd (add_meal E meal mf sf date w)) mf =
           Some (Parsed (JArr (kept @ [meal_record
                    (case date of None \<Rightarrow> current_timestamp E | Some d \<Rightarrow> d) meal])))"
  using assms
  by (simp add: add_meal_def case_prod_beta Let_def save_file_ok save_file_files_other
                meal_record_def
           split: sum.splits)



lemma load_file_nonempty_list:
  "fst (load_file p w) = Inr (JArr xs) \<Longrightarrow> xs \<noteq> [] \<Longrightarrow> files w p = Some (Parsed (JArr xs))"
  by (auto simp: load_file_def split: option.splits file_content.splits)

lemma display_field_dict:
  "is_dict item \<Longrightarrow> display_field item new_key old_key s = Inr (shown_field item new_key old_key s)"
  by (cases item)
     (auto simp: is_dict_def display_field_def shown_field_def present_truthy_def value_at_def
                 py_or_def split: option.splits)

lemma display_field_not_dict:
  "\<not> is_dict item \<Longrightarrow> display_field item new_key old_key s = Inl AttributeError"
  by (cases item) (auto simp: is_dict_def display_field_def)

lemma shown_field_content:
  "content_of m = Some c \<Longrightarrow> c \<noteq> [] \<Longrightarrow> shown_field m ''content'' old_key s = JStr c"
  by (cases m)
     (auto simp: content_of_def shown_field_def present_truthy_def value_at_def
           split: option.splits json.splits)

lemma delete_meal_out_of_range:
  assumes "fst (load_file f w) = Inr (JArr xs)" and "\<not> (0 < i \<and> i \<le> int (length xs))"
  shows "delete_meal E i f w = (Inr (), print ''Invalid meal number'' w)"
  using assms(2) by (auto simp: delete_meal_def load_file_list [OF assms(1)])

lemma delete_meal_in_range_files:
  assumes "fst (load_file f w) = Inr (JArr xs)" and "0 < i" and "i \<le> int (length xs)"
      and "dirname f \<noteq> []"
  shows "files (snd (delete_meal E i f w)) =
           (files w)(backup_path f \<mapsto> Parsed (JArr xs),
                     f \<mapsto> Parsed (JArr (take (nat i - 1) xs @ drop (nat i) xs)))"
proof -
  from assms(2,3) have "xs \<noteq> []" by auto
  with assms(1) have present: "files w f = Some (Parsed (JArr xs))"
    by (rule load_file_nonempty_list)
  from assms(2) have idx: "Suc (nat (i - 1)) = nat i" "nat (i - 1) = nat i - 1"
    by auto
  show ?thesis
    using assms(2,3)
    by (simp add: delete_meal_def load_file_list [OF assms(1)] save_file_ok [OF assms(4)]
                  present idx split: sum.splits)
qed

lemma delete_meal_in_range:
  assumes "fst (load_file f w) = Inr (JArr xs)" and "0 < i" and "i \<le> int (length xs)"
      and "dirname f \<noteq> []" and "is_dict (xs ! (nat i - 1))"
  shows "delete_meal E i f w =
           (Inr (),
            print (''Deleted meal '' @ digits (nat i) @ '': ''
                   @ fmt E (shown_field (xs ! (nat i - 1)) ''content'' ''meal'' ''unknown meal''))
              (write_file f (Parsed (JArr (take (nat i - 1) xs @ drop (nat i) xs)))
                 (write_file (backup_path f) (Parsed (JArr xs)) w)))"
proof -
  from assms(2,3) have "xs \<noteq> []" by auto
  with assms(1) have present: "files w f = Some (Parsed (JArr xs))"
    by (rule load_file_nonempty_list)
  from assms(2) have idx: "Suc (nat (i - 1)) = nat i" "nat (i - 1) = nat i - 1"
    by auto
  from assms(5) have dict: "is_dict (xs ! (nat i - Suc 0))" by simp
  show ?thesis
    using assms(2,3)
    by (simp add: delete_meal_def load_file_list [OF assms(1)] save_file_ok [OF assms(4)]
                  present idx display_field_dict [OF dict])
qed

text \<open>
  Claim C8. Let the ledger file load as a list of dicts (a missing file loads as the empty
  list), at a path with a directory part. For every integer index with
  \<open>1 \<le> index \<le> length\<close>, \<^verbatim>\<open>delete_meal\<close> returns normally; afterwards the backup holds the
  old list, the ledger file holds the list without the record at 1-based position \<open>index\<close>
  (the others in order) and loads as that list, every other file is as before, and one
  line has been printed that names the removed record's content: its \<^verbatim>\<open>content\<close>, which for
  a non-empty string is that string. For every other index the command returns normally,
  the one line printed is \<^verbatim>\<open>Invalid meal number\<close>, and every file is as before, so that the
  ledger loads as the same list.
\<close>

theorem delete_meal_by_index:
  assumes "fst (load_file data_file w) = Inr (JArr xs)"
      and "\<forall>x\<in>set xs. is_dict x"
      and "dirname data_file \<noteq> []"
  shows "(0 < index \<and> index \<le> int (length xs) \<longrightarrow>
            fst (delete_meal E index data_file w) = Inr () \<and>
            files (snd (delete_meal E index data_file w)) =
              (files w)(backup_path data_file \<mapsto> Parsed (JArr xs),
                        data_file \<mapsto>
                          Parsed (JArr (take (nat index - 1) xs @ drop (nat index) xs))) \<and>
            fst (load_file data_file (snd (delete_meal E index data_file w))) =
              Inr (JArr (take (nat index - 1) xs @ drop (nat index) xs)) \<and>
            stdout (snd (delete_meal E index data_file w)) =
              stdout w @ [''Deleted meal '' @ digits (nat index) @ '': ''
                          @ fmt E (shown_field (xs ! (nat index - 1)) ''content'' ''meal''
                                     ''unknown meal'')] \<and>
            (\<forall>c. content_of (xs ! (nat index - 1)) = Some c \<and> c \<noteq> [] \<longrightarrow>
                 stdout (snd (delete_meal E index data_file w)) =
                   stdout w @ [''Deleted meal '' @ digits (nat index) @ '': '' @ c])) \<and>
         (\<not> (0 < index \<and> index \<le> int (length xs)) \<longrightarrow>
            fst (delete_meal E index data_file w) = Inr () \<and>
            files (snd (delete_meal E index data_file w)) = files w \<and>
            fst (load_file data_file (snd (delete_meal E index data_file w))) = Inr (JArr xs) \<and>
            stdout (snd (delete_meal E index data_file w)) =
              stdout w @ [''Invalid meal number''])"
proof (cases "0 < index \<and> index \<le> int (length xs)")
  case True
  then have "nat index - 1 < length xs" by auto
  with assms(2) have dict: "is_dict (xs ! (nat index - 1))" by simp
  from True have r: "0 < index" "index \<le> int (length xs)" by auto
  define msg where
    "msg = ''Deleted meal '' @ digits (nat index) @ '': ''
           @ fmt E (shown_field (xs ! (nat index - 1)) ''content'' ''meal'' ''unknown meal'')"
  define rest where "rest = take (nat index - 1) xs @ drop (nat index) xs"
  have run: "delete_meal E index data_file w =
               (Inr (), print msg (write_file data_file (Parsed (JArr rest))
                                     (write_file (backup_path data_file) (Parsed (JArr xs)) w)))"
    unfolding msg_def rest_def by (rule delete_meal_in_range [OF assms(1) r assms(3) dict])
  have a: "fst (delete_meal E index data_file w) = Inr ()"
    by (simp add: run)
  have b: "files (snd (delete_meal E index data_file w)) =
             (files w)(backup_path data_file \<mapsto> Parsed (JArr xs),
                       data_file \<mapsto> Parsed (JArr rest))"
    by (simp add: run)
  have c: "fst (load_file data_file (snd (delete_meal E index data_file w))) = Inr (JArr rest)"
    by (simp add: load_file_parsed b)
  have d: "stdout (snd (delete_meal E index data_file w)) = stdout w @ [msg]"
    by (simp add: run)
  have e: "stdout (snd (delete_meal E index data_file w)) =
             stdout w @ [''Deleted meal '' @ digits (nat index) @ '': '' @ c]"
    if "content_of (xs ! (nat index - 1)) = Some c \<and> c \<noteq> []" for c
  proof -
    from that have "shown_field (xs ! (nat index - 1)) ''content'' ''meal'' ''unknown meal''
                    = JStr c"
      by (simp add: shown_field_content)
    then have "msg = ''Deleted meal '' @ digits (nat index) @ '': '' @ c"
      by (simp add: msg_def)
    with d show ?thesis by simp
  qed
  from True a b c d e show ?thesis
    unfolding msg_def rest_def by blast
next
  case False
  have run: "delete_meal E index data_file w = (Inr (), print ''Invalid meal number'' w)"
    by (rule delete_meal_out_of_range [OF assms(1) False])
  have a: "fst (delete_meal E index data_file w) = Inr ()"
    by (simp add: run)
  have b: "files (snd (delete_meal E index data_file w)) = files w"
    by (simp add: run)
  have c: "fst (load_file data_file (snd (delete_meal E index data_file w))) = Inr (JArr xs)"
    using fst_load_file_same_files [OF b] assms(1) by simp
  have d: "stdout (snd (delete_meal E index data_file w)) = stdout w @ [''Invalid meal number'']"
    by (simp add: run)
  from False a b c d show ?thesis by blast
qed

text \<open>\<^verbatim>\<open>delete 5\<close> and \<^verbatim>\<open>delete 1\<close> on a ledger of two entries.\<close>

theorem delete_meal_by_index_witness:
  "fst (delete_meal demo_env 5 (get_data_file False None)
          (world_of [(''./test/meals.json'',
                      Parsed (JArr [meal_record ''[2024-03-10]'' ''eggs'',
                                    meal_record ''[2024-03-12]'' ''rice'']))])) = Inr () \<and>
   files (snd (delete_meal demo_env 5 (get_data_file False None)
                 (world_of [(''./test/meals.json'',
                             Parsed (JArr [meal_record ''[2024-03-10]'' ''eggs'',
                                           meal_record ''[2024-03-12]'' ''rice'']))])))
      ''./test/meals.json''
     = Some (Parsed (JArr [meal_record ''[2024-03-10]'' ''eggs'',
                           meal_record ''[2024-03-12]'' ''rice''])) \<and>
   stdout (snd (delete_meal demo_env 5 (get_data_file False None)
                  (world_of [(''./test/meals.json'',
                              Parsed (JArr [meal_record ''[2024-03-10]'' ''eggs'',
                                            meal_record ''[2024-03-12]'' ''rice'']))])))
     = [''Invalid meal number''] \<and>
   fst (delete_meal demo_env 1 (get_data_file False None)
          (world_of [(''./test/meals.json'',
                      Parsed (JArr [meal_record ''[2024-03-10]'' ''eggs'',
                                    meal_record ''[2024-03-12]'' ''rice'']))])) = Inr () \<and>
   files (snd (delete_meal demo_env 1 (get_data_file False None)
                 (world_of [(''./test/meals.json'',
                             Parsed (JArr [meal_record ''[2024-03-10]'' ''eggs'',
                                           meal_record ''[2024-03-12]'' ''rice'']))])))
      ''./test/meals.json''
     = Some (Parsed (JArr [meal_record ''[2024-03-12]'' ''rice''])) \<and>
   files (snd (delete_meal demo_env 1 (get_data_file False None)
                 (world_of [(''./test/meals.json'',
                             Parsed (JArr [meal_record ''[2024-03-10]'' ''eggs'',
                                           meal_record ''[2024-03-12]'' ''rice'']))])))
      ''./test/backup/backup_meals.json''
     = Some (Parsed (JArr [meal_record ''[2024-03-10]'' ''eggs'',
                           meal_record ''[2024-03-12]'' ''rice''])) \<and>
   stdout (snd (delete_meal demo_env 1 (get_data_file False None)
                  (world_of [(''./test/meals.json'',
                              Parsed (JArr [meal_record ''[2024-03-10]'' ''eggs'',
                                            meal_record ''[2024-03-12]'' ''rice'']))])))
     = [''Deleted meal 1: eggs'']"
proof -
  let ?xs = "[meal_record ''[2024-03-10]'' ''eggs'', meal_record ''[2024-03-12]'' ''rice'']"
  let ?w = "world_of [(''./test/meals.json'', Parsed (JArr ?xs))]"
  have loaded: "fst (load_file (get_data_file False None) ?w) = Inr (JArr ?xs)"
    by (simp add: default_paths load_file_def world_of_def)
  have dicts: "\<forall>x\<in>set ?xs. is_dict x"
    by (simp add: is_dict_def meal_record_def)
  have dir: "dirname (get_data_file False None) \<noteq> []"
    by (simp add: default_paths)
  have start: "stdout ?w = []" "files ?w ''./test/meals.json'' = Some (Parsed (JArr ?xs))"
    by (simp_all add: world_of_def)
  have name: "shown_field (meal_record ''[2024-03-10]'' ''eggs'') ''content'' ''meal''
                ''unknown meal'' = JStr ''eggs''"
    by (simp add: shown_field_def present_truthy_def value_at_def meal_record_def)
  note inst = delete_meal_by_index [OF loaded dicts dir, where E = demo_env]
  from inst [of 5]
  have five: "fst (delete_meal demo_env 5 (get_data_file False None) ?w) = Inr () \<and>
              files (snd (delete_meal demo_env 5 (get_data_file False None) ?w)) = files ?w \<and>
              stdout (snd (delete_meal demo_env 5 (get_data_file False None) ?w))
                = stdout ?w @ [''Invalid meal number'']"
    by simp
  from inst [of 1]
  have one: "fst (delete_meal demo_env 1 (get_data_file False None) ?w) = Inr () \<and>
             files (snd (delete_meal demo_env 1 (get_data_file False None) ?w)) =
               (files ?w)(backup_path (get_data_file False None) \<mapsto> Parsed (JArr ?xs),
                          get_data_file False None \<mapsto> Parsed (JArr [meal_record ''[2024-03-12]'' ''rice''])) \<and>
             stdout (snd (delete_meal demo_env 1 (get_data_file False None) ?w))
               = stdout ?w @ [''Deleted meal '' @ digits 1 @ '': '' @ ''eggs'']"
    by (simp add: name)
  from five one show ?thesis
    by (simp add: start default_paths digits.simps)
qed

subsection \<open>What the write paths persist\<close>

lemma delete_all_ok:
  "dirname f \<noteq> [] \<Longrightarrow>
   delete_all f w =
     (Inr (), print ''Deleted all meals''
                (write_file f (Parsed (JArr []))
                   (case files w f of None \<Rightarrow> w | Some c \<Rightarrow> write_file (backup_path f) c w)))"
  by (simp add: delete_all_def save_file_ok)

lemma clean_old_meals_loaded_list:
  assumes "\<forall>m\<in>set xs. parsed_timestamp E m \<noteq> None"
  shows "clean_old_meals E (if JArr xs = JNull then JArr [] else JArr xs) days
           = Inr (filter (within_days E days) xs)"
  by (simp add: clean_old_meals_list keep_recent_all_parsed [OF assms])


text \<open>
  Claim C4, as stated, fails on two write paths. At noon of 2024-03-15 a record of
  2023-12-24 is older than 30 days; \<^verbatim>\<open>delete_meal\<close> of the other record writes it back, and
  \<^verbatim>\<open>add_meal\<close> with that date (the \<^verbatim>\<open>--date\<close> option) writes a new record carrying it.
\<close>

theorem ledger_writes_keep_old_records_counterexample:
  "\<not> within_days demo_env 30 (meal_record ''[2023-12-24]'' ''goose'') \<and>
   files (snd (delete_meal demo_env 2 ''./test/meals.json''
                 (world_of [(''./test/meals.json'',
                             Parsed (JArr [meal_record ''[2023-12-24]'' ''goose'',
                                           meal_record ''[2024-03-14]'' ''rice'']))])))
      ''./test/meals.json''
     = Some (Parsed (JArr [meal_record ''[2023-12-24]'' ''goose''])) \<and>
   files (snd (add_meal demo_env ''goose'' ''./test/meals.json'' ''./test/suggestion.json''
                 (Some ''[2023-12-24]'') (world_of [])))
      ''./test/meals.json''
     = Some (Parsed (JArr [meal_record ''[2023-12-24]'' ''goose'']))"
proof -
  let ?xs = "[meal_record ''[2023-12-24]'' ''goose'', meal_record ''[2024-03-14]'' ''rice'']"
  let ?w = "world_of [(''./test/meals.json'', Parsed (JArr ?xs))]"
  have old: "\<not> within_days demo_env 30 (meal_record ''[2023-12-24]'' ''goose'')"
    by (simp add: within_days_def parsed_timestamp_def demo_simps)
  have loaded: "fst (load_file ''./test/meals.json'' ?w) = Inr (JArr ?xs)"
    by (simp add: load_file_def world_of_def)
  have del: "files (snd (delete_meal demo_env 2 ''./test/meals.json'' ?w)) ''./test/meals.json''
             = Some (Parsed (JArr [meal_record ''[2023-12-24]'' ''goose'']))"
    by (simp add: delete_meal_in_range_files [OF loaded] default_paths)
  have missing: "fst (load_file ''./test/meals.json'' (world_of [])) = Inr (JArr [])"
    by (simp add: load_file_def world_of_def)
  have empty: "clean_old_meals demo_env (if JArr [] = JNull then JArr [] else JArr []) 30 = Inr []"
    by (simp add: clean_old_meals_list)
  have add: "files (snd (add_meal demo_env ''goose'' ''./test/meals.json''
                           ''./test/suggestion.json'' (Some ''[2023-12-24]'') (world_of [])))
               ''./test/meals.json''
             = Some (Parsed (JArr [meal_record ''[2023-12-24]'' ''goose'']))"
    using add_meal_writes_ledger [OF missing empty, where sf = "''./test/suggestion.json''"
                                    and date = "Some ''[2023-12-24]''" and meal = "''goose''"]
    by (simp add: default_paths)
  from old del add show ?thesis by blast
qed

text \<open>
  Claim C4, amended. Let the ledger load as a list whose records all carry a parsable
  timestamp. \<^verbatim>\<open>add_meal\<close> drops the loaded records older than 30 days before it appends
  the new record and writes the list: the file then holds the loaded records that are
  within 30 days, in order, followed by the new record, whose date is the caller's or
  today's and is not checked. \<^verbatim>\<open>delete_meal\<close> with an index in range writes the loaded
  list without the removed record and prunes nothing; \<^verbatim>\<open>delete_all\<close> writes the empty
  list.
\<close>

theorem ledger_write_paths:
  assumes "fst (load_file meal_file w) = Inr (JArr xs)"
      and "\<forall>m\<in>set xs. parsed_timestamp E m \<noteq> None"
      and "dirname meal_file \<noteq> []"
      and "meal_file \<noteq> suggestion_file"
      and "meal_file \<noteq> backup_path suggestion_file"
  shows "files (snd (add_meal E meal meal_file suggestion_file date w)) meal_file =
           Some (Parsed (JArr (filter (within_days E 30) xs @
                   [meal_record (case date of None \<Rightarrow> current_timestamp E | Some d \<Rightarrow> d) meal]))) \<and>
         (0 < index \<and> index \<le> int (length xs) \<longrightarrow>
            files (snd (delete_meal E index meal_file w)) meal_file =
              Some (Parsed (JArr (take (nat index - 1) xs @ drop (nat index) xs)))) \<and>
         files (snd (delete_all meal_file w)) meal_file = Some (Parsed (JArr []))"
proof -
  note kept = clean_old_meals_loaded_list [OF assms(2), of 30]
  have add: "files (snd (add_meal E meal meal_file suggestion_file date w)) meal_file =
           Some (Parsed (JArr (filter (within_days E 30) xs @
                   [meal_record (case date of None \<Rightarrow> current_timestamp E | Some d \<Rightarrow> d) meal])))"
    by (rule add_meal_writes_ledger [OF assms(1) kept assms(3,4,5)])
  have del: "files (snd (delete_meal E index meal_file w)) meal_file =
              Some (Parsed (JArr (take (nat index - 1) xs @ drop (nat index) xs)))"
    if "0 < index" and "index \<le> int (length xs)"
    by (simp add: delete_meal_in_range_files [OF assms(1) that assms(3)])
  have all: "files (snd (delete_all meal_file w)) meal_file = Some (Parsed (JArr []))"
    by (simp add: delete_all_ok [OF assms(3)])
  from add del all show ?thesis by blast
qed

text \<open>The three commands on a ledger with one record of 2023-12-24 and one of 2024-03-14.\<close>

theorem ledger_write_paths_witness:
  "files (snd (add_meal demo_env ''eggs'' ''./test/meals.json'' ''./test/suggestion.json'' None
                 (world_of [(''./test/meals.json'',
                             Parsed (JArr [meal_record ''[2023-12-24]'' ''goose'',
                                           meal_record ''[2024-03-14]'' ''rice'']))])))
      ''./test/meals.json''
     = Some (Parsed (JArr [meal_record ''[2024-03-14]'' ''rice'',
                           meal_record ''[2024-03-15]'' ''eggs''])) \<and>
   files (snd (delete_meal demo_env 2 ''./test/meals.json''
                 (world_of [(''./test/meals.json'',
                             Parsed (JArr [meal_record ''[2023-12-24]'' ''goose'',
                                           meal_record ''[2024-03-14]'' ''rice'']))])))
      ''./test/meals.json''
     = Some (Parsed (JArr [meal_record ''[2023-12-24]'' ''goose''])) \<and>
   files (snd (delete_all ''./test/meals.json''
                 (world_of [(''./test/meals.json'',
                             Parsed (JArr [meal_record ''[2023-12-24]'' ''goose'',
                                           meal_record ''[2024-03-14]'' ''rice'']))])))
      ''./test/meals.json''
     = Some (Parsed (JArr []))"
proof -
  let ?xs = "[meal_record ''[2023-12-24]'' ''goose'', meal_record ''[2024-03-14]'' ''rice'']"
  let ?w = "world_of [(''./test/meals.json'', Parsed (JArr ?xs))]"
  have loaded: "fst (load_file ''./test/meals.json'' ?w) = Inr (JArr ?xs)"
    by (simp add: load_file_def world_of_def)
  have parse: "\<forall>m\<in>set ?xs. parsed_timestamp demo_env m \<noteq> None"
    by (simp add: parsed_timestamp_def demo_simps)
  have dir: "dirname ''./test/meals.json'' \<noteq> []"
    by (simp add: default_paths)
  have ne: "''./test/meals.json'' \<noteq> ''./test/suggestion.json''"
    "''./test/meals.json'' \<noteq> backup_path ''./test/suggestion.json''"
    by (simp_all add: default_paths)
  have kept: "filter (within_days demo_env 30) ?xs = [meal_record ''[2024-03-14]'' ''rice'']"
    by (simp add: within_days_def parsed_timestamp_def demo_simps)
  have stamp: "current_timestamp demo_env = ''[2024-03-15]''"
    by (simp add: current_timestamp_def demo_env_def)
  from ledger_write_paths [OF loaded parse dir ne, where meal = "''eggs''" and date = None
                             and index = 2]
  show ?thesis
    by (simp add: kept stamp del: filter.simps)
qed

subsection \<open>A ledger file that cannot be loaded\<close>

lemma list_meals_garbled:
  "files w p = Some (Garbled t) \<Longrightarrow>
   list_meals E p w =
     (Inr (), print ''No meals found'' (print ''Corrupted file. Abort loading'' w))"
  by (simp add: list_meals_def load_file_garbled)


lemma list_meals_load_raises:
  "fst (load_file p w) = Inl e \<Longrightarrow> list_meals E p w = (Inl e, snd (load_file p w))"
  by (simp add: list_meals_def case_prod_beta)


lemma suggest_meal_load_raises:
  "fst (load_file mf w) = Inl e \<Longrightarrow> suggest_meal E mf sf w = (Inl e, snd (load_file mf w))"
  by (simp add: suggest_meal_def case_prod_beta)




subsection \<open>Restore with a backup missing\<close>

lemma restore_aborts:
  "read_backup E (backup_path data_file) w = Inl line \<Longrightarrow>
   restore E data_file suggestion_file w = print line w"
  by (simp add: restore_def)

lemma restore_second_aborts:
  "read_backup E (backup_path data_file) w = Inr v \<Longrightarrow>
   read_backup E (backup_path suggestion_file) (write_file data_file (Parsed v) w) = Inl line \<Longrightarrow>
   restore E data_file suggestion_file w = print line (write_file data_file (Parsed v) w)"
  by (simp add: restore_def Let_def)

lemma read_backup_missing:
  "files w p = None \<Longrightarrow> read_backup E p w = Inl ''No file to restore from''"
  by (simp add: read_backup_def)

lemma read_backup_garbled:
  "files w p = Some (Garbled t) \<Longrightarrow> read_backup E p w = Inl ''Corrupted file. Abort restoring''"
  by (simp add: read_backup_def)

lemma read_backup_undecodable:
  "files w p = Some (Undecodable t) \<Longrightarrow>
   read_backup E p w = Inl (''Error restoring data: '' @ exc_text E UnicodeDecodeError t)"
  by (simp add: read_backup_def)

lemma read_backup_too_deep:
  "files w p = Some (TooDeep t) \<Longrightarrow>
   read_backup E p w = Inl (''Error restoring data: '' @ exc_text E RecursionError t)"
  by (simp add: read_backup_def)

lemma read_backup_parsed:
  "files w p = Some (Parsed v) \<Longrightarrow> read_backup E p w = Inr v"
  by (simp add: read_backup_def)

text \<open>
  Claim C2, as stated, fails when only the suggestion backup is missing: the message is
  printed, but the ledger file, which held one record, has been overwritten with the
  ledger backup's empty list.
\<close>

theorem restore_partial_counterexample:
  "files (world_of [(''./test/meals.json'', Parsed (JArr [meal_record ''[2024-03-14]'' ''rice''])),
                    (''./test/backup/backup_meals.json'', Parsed (JArr []))])
      (backup_path ''./test/suggestion.json'') = None \<and>
   stdout (restore demo_env ''./test/meals.json'' ''./test/suggestion.json''
             (world_of [(''./test/meals.json'',
                         Parsed (JArr [meal_record ''[2024-03-14]'' ''rice''])),
                        (''./test/backup/backup_meals.json'', Parsed (JArr []))]))
     = [''No file to restore from''] \<and>
   files (world_of [(''./test/meals.json'', Parsed (JArr [meal_record ''[2024-03-14]'' ''rice''])),
                    (''./test/backup/backup_meals.json'', Parsed (JArr []))])
      ''./test/meals.json''
     = Some (Parsed (JArr [meal_record ''[2024-03-14]'' ''rice''])) \<and>
   files (restore demo_env ''./test/meals.json'' ''./test/suggestion.json''
            (world_of [(''./test/meals.json'',
                        Parsed (JArr [meal_record ''[2024-03-14]'' ''rice''])),
                       (''./test/backup/backup_meals.json'', Parsed (JArr []))]))
      ''./test/meals.json''
     = Some (Parsed (JArr []))"
  by (simp add: restore_def read_backup_def default_paths world_of_def print_def
                write_file_def)

text \<open>
  Claim C2, amended. If the ledger backup is missing, \<^verbatim>\<open>restore\<close> prints
  \<^verbatim>\<open>No file to restore from\<close> and changes no file. If the ledger backup holds a text that
  \<^verbatim>\<open>json.load\<close> rejects with \<^verbatim>\<open>JSONDecodeError\<close>, it prints
  \<^verbatim>\<open>Corrupted file. Abort restoring\<close> and changes no file; if reading the ledger backup
  raises another exception (bytes that are not UTF-8, nesting beyond the interpreter's
  limit), it prints \<^verbatim>\<open>Error restoring data:\<close> followed by the exception's text and changes
  no file. If the ledger backup parses and the suggestion backup is missing (and is not
  the ledger file itself), it prints \<^verbatim>\<open>No file to restore from\<close> after it has overwritten
  the ledger file with the backup's contents: the ledger file then holds the backup's
  value, and every other file, the suggestion file among them, is as before.
\<close>

theorem restore_with_missing_backup:
  "(files w (backup_path data_file) = None \<longrightarrow>
      files (restore E data_file suggestion_file w) = files w \<and>
      stdout (restore E data_file suggestion_file w) = stdout w @ [''No file to restore from'']) \<and>
   (files w (backup_path data_file) = Some (Garbled t) \<longrightarrow>
      files (restore E data_file suggestion_file w) = files w \<and>
      stdout (restore E data_file suggestion_file w)
        = stdout w @ [''Corrupted file. Abort restoring'']) \<and>
   (files w (backup_path data_file) = Some (Undecodable t) \<longrightarrow>
      files (restore E data_file suggestion_file w) = files w \<and>
      stdout (restore E data_file suggestion_file w)
        = stdout w @ [''Error restoring data: '' @ exc_text E UnicodeDecodeError t]) \<and>
   (files w (backup_path data_file) = Some (TooDeep t) \<longrightarrow>
      files (restore E data_file suggestion_file w) = files w \<and>
      stdout (restore E data_file suggestion_file w)
        = stdout w @ [''Error restoring data: '' @ exc_text E RecursionError t]) \<and>
   (files w (backup_path data_file) = Some (Parsed v) \<and>
    files w (backup_path suggestion_file) = None \<and>
    backup_path suggestion_file \<noteq> data_file \<longrightarrow>
      files (restore E data_file suggestion_file w) = (files w)(data_file \<mapsto> Parsed v) \<and>
      files (restore E data_file suggestion_file w) data_file = Some (Parsed v) \<and>
      stdout (restore E data_file suggestion_file w) = stdout w @ [''No file to restore from''] \<and>
      (suggestion_file \<noteq> data_file \<longrightarrow>
         files (restore E data_file suggestion_file w) suggestion_file = files w suggestion_file))"
proof -
  have missing: "files (restore E data_file suggestion_file w) = files w \<and>
      stdout (restore E data_file suggestion_file w) = stdout w @ [''No file to restore from'']"
    if "files w (backup_path data_file) = None"
    by (simp add: restore_aborts [OF read_backup_missing [OF that]] files_print stdout_print)
  have garbled: "files (restore E data_file suggestion_file w) = files w \<and>
      stdout (restore E data_file suggestion_file w)
        = stdout w @ [''Corrupted file. Abort restoring'']"
    if "files w (backup_path data_file) = Some (Garbled t)"
    by (simp add: restore_aborts [OF read_backup_garbled [OF that]] files_print stdout_print)
  have undecodable: "files (restore E data_file suggestion_file w) = files w \<and>
      stdout (restore E data_file suggestion_file w)
        = stdout w @ [''Error restoring data: '' @ exc_text E UnicodeDecodeError t]"
    if "files w (backup_path data_file) = Some (Undecodable t)"
    by (simp add: restore_aborts [OF read_backup_undecodable [OF that]] files_print stdout_print)
  have too_deep: "files (restore E data_file suggestion_file w) = files w \<and>
      stdout (restore E data_file suggestion_file w)
        = stdout w @ [''Error restoring data: '' @ exc_text E RecursionError t]"
    if "files w (backup_path data_file) = Some (TooDeep t)"
    by (simp add: restore_aborts [OF read_backup_too_deep [OF that]] files_print stdout_print)
  have partial: "files (restore E data_file suggestion_file w) = (files w)(data_file \<mapsto> Parsed v) \<and>
      files (restore E data_file suggestion_file w) data_file = Some (Parsed v) \<and>
      stdout (restore E data_file suggestion_file w) = stdout w @ [''No file to restore from''] \<and>
      (suggestion_file \<noteq> data_file \<longrightarrow>
         files (restore E data_file suggestion_file w) suggestion_file = files w suggestion_file)"
    if first: "files w (backup_path data_file) = Some (Parsed v)"
      and second: "files w (backup_path suggestion_file) = None"
      and apart: "backup_path suggestion_file \<noteq> data_file"
  proof -
    from second apart
    have "files (write_file data_file (Parsed v) w) (backup_path suggestion_file) = None"
      by (simp add: files_write_file)
    from restore_second_aborts [OF read_backup_parsed [OF first] read_backup_missing [OF this]]
    show ?thesis
      by (simp add: files_print stdout_print files_write_file stdout_write_file)
  qed
  from missing garbled undecodable too_deep partial show ?thesis by blast
qed

text \<open>One world for each case.\<close>

theorem restore_with_missing_backup_witness:
  "files (restore demo_env ''./test/meals.json'' ''./test/suggestion.json''
            (world_of [(''./test/meals.json'',
                        Parsed (JArr [meal_record ''[2024-03-14]'' ''rice'']))]))
      ''./test/meals.json''
     = Some (Parsed (JArr [meal_record ''[2024-03-14]'' ''rice''])) \<and>
   stdout (restore demo_env ''./test/meals.json'' ''./test/suggestion.json''
             (world_of [(''./test/meals.json'',
                         Parsed (JArr [meal_record ''[2024-03-14]'' ''rice'']))]))
     = [''No file to restore from''] \<and>
   stdout (restore demo_env ''./test/meals.json'' ''./test/suggestion.json''
             (world_of [(''./test/backup/backup_meals.json'', Garbled ''[{unfinished'')]))
     = [''Corrupted file. Abort restoring''] \<and>
   files (restore demo_env ''./test/meals.json'' ''./test/suggestion.json''
            (world_of [(''./test/backup/backup_meals.json'', Garbled ''[{unfinished'')]))
      ''./test/meals.json''
     = None \<and>
   stdout (restore demo_env ''./test/meals.json'' ''./test/suggestion.json''
             (world_of [(''./test/backup/backup_meals.json'',
                         Undecodable [CHR 0xFF, CHR 0xFE])]))
     = [''Error restoring data: cannot read''] \<and>
   files (restore demo_env ''./test/meals.json'' ''./test/suggestion.json''
            (world_of [(''./test/suggestion.json'', Parsed (JArr [suggestion_record ''rice''])),
                       (''./test/meals.json'',
                        Parsed (JArr [meal_record ''[2024-03-14]'' ''rice''])),
                       (''./test/backup/backup_meals.json'', Parsed (JArr []))]))
      ''./test/meals.json''
     = Some (Parsed (JArr [])) \<and>
   stdout (restore demo_env ''./test/meals.json'' ''./test/suggestion.json''
             (world_of [(''./test/suggestion.json'', Parsed (JArr [suggestion_record ''rice''])),
                        (''./test/meals.json'',
                         Parsed (JArr [meal_record ''[2024-03-14]'' ''rice''])),
                        (''./test/backup/backup_meals.json'', Parsed (JArr []))]))
     = [''No file to restore from''] \<and>
   files (restore demo_env ''./test/meals.json'' ''./test/suggestion.json''
            (world_of [(''./test/suggestion.json'', Parsed (JArr [suggestion_record ''rice''])),
                       (''./test/meals.json'',
                        Parsed (JArr [meal_record ''[2024-03-14]'' ''rice''])),
                       (''./test/backup/backup_meals.json'', Parsed (JArr []))]))
      ''./test/suggestion.json''
     = Some (Parsed (JArr [suggestion_record ''rice'']))"
proof -
  let ?w1 = "world_of [(''./test/meals.json'', Parsed (JArr [meal_record ''[2024-03-14]'' ''rice'']))]"
  let ?w2 = "world_of [(''./test/backup/backup_meals.json'', Garbled ''[{unfinished'')]"
  let ?w3 = "world_of [(''./test/backup/backup_meals.json'', Undecodable [CHR 0xFF, CHR 0xFE])]"
  let ?w4 = "world_of [(''./test/suggestion.json'', Parsed (JArr [suggestion_record ''rice''])),
                       (''./test/meals.json'',
                        Parsed (JArr [meal_record ''[2024-03-14]'' ''rice''])),
                       (''./test/backup/backup_meals.json'', Parsed (JArr []))]"
  note inst = restore_with_missing_backup
                [where data_file = "''./test/meals.json''"
                   and suggestion_file = "''./test/suggestion.json''" and E = demo_env]
  have a: "files ?w1 (backup_path ''./test/meals.json'') = None"
    "files ?w1 ''./test/meals.json'' = Some (Parsed (JArr [meal_record ''[2024-03-14]'' ''rice'']))"
    "stdout ?w1 = []"
    by (simp_all add: default_paths world_of_def)
  have b: "files ?w2 (backup_path ''./test/meals.json'') = Some (Garbled ''[{unfinished'')"
    "files ?w2 ''./test/meals.json'' = None"
    "stdout ?w2 = []"
    by (simp_all add: default_paths world_of_def)
  have c: "files ?w3 (backup_path ''./test/meals.json'') = Some (Undecodable [CHR 0xFF, CHR 0xFE])"
    "stdout ?w3 = []"
    "exc_text demo_env UnicodeDecodeError [CHR 0xFF, CHR 0xFE] = ''cannot read''"
    by (simp_all add: default_paths world_of_def demo_env_def)
  have d: "files ?w4 (backup_path ''./test/meals.json'') = Some (Parsed (JArr []))"
    "files ?w4 (backup_path ''./test/suggestion.json'') = None"
    "backup_path ''./test/suggestion.json'' \<noteq> ''./test/meals.json''"
    "''./test/suggestion.json'' \<noteq> ''./test/meals.json''"
    "files ?w4 ''./test/suggestion.json'' = Some (Parsed (JArr [suggestion_record ''rice'']))"
    "stdout ?w4 = []"
    by (simp_all add: default_paths world_of_def)
  from inst [of ?w1] a
  have r1: "files (restore demo_env ''./test/meals.json'' ''./test/suggestion.json'' ?w1)
              ''./test/meals.json''
            = Some (Parsed (JArr [meal_record ''[2024-03-14]'' ''rice''])) \<and>
            stdout (restore demo_env ''./test/meals.json'' ''./test/suggestion.json'' ?w1)
            = [''No file to restore from'']"
    by simp
  from inst [of ?w2 "''[{unfinished''"] b
  have r2: "stdout (restore demo_env ''./test/meals.json'' ''./test/suggestion.json'' ?w2)
            = [''Corrupted file. Abort restoring''] \<and>
            files (restore demo_env ''./test/meals.json'' ''./test/suggestion.json'' ?w2)
              ''./test/meals.json'' = None"
    by simp
  from inst [of ?w3 "[CHR 0xFF, CHR 0xFE]"] c
  have r3: "stdout (restore demo_env ''./test/meals.json'' ''./test/suggestion.json'' ?w3)
            = [''Error restoring data: cannot read'']"
    by simp
  from inst [of ?w4 _ "JArr []"] d
  have r4: "files (restore demo_env ''./test/meals.json'' ''./test/suggestion.json'' ?w4)
              ''./test/meals.json'' = Some (Parsed (JArr [])) \<and>
            stdout (restore demo_env ''./test/meals.json'' ''./test/suggestion.json'' ?w4)
            = [''No file to restore from''] \<and>
            files (restore demo_env ''./test/meals.json'' ''./test/suggestion.json'' ?w4)
              ''./test/suggestion.json'' = Some (Parsed (JArr [suggestion_record ''rice'']))"
    by simp
  from r1 r2 r3 r4 show ?thesis by blast
qed

subsection \<open>Rows of the ledger listing\<close>

lemma list_meals_loop_rows:
  "\<forall>x\<in>set xs. is_dict x \<Longrightarrow>
   list_meals_loop E (Suc k) xs w =
     (Inr (), w\<lparr>stdout := stdout w @ map (\<lambda>(i, item). meal_row E i item) (enumerate k xs)\<rparr>)"
proof (induction xs arbitrary: k w)
  case Nil
  then show ?case by simp
next
  case (Cons x xs)
  then have x: "is_dict x" and rest: "\<forall>y\<in>set xs. is_dict y" by simp_all
  show ?case
    by (simp add: display_field_dict [OF x] Cons.IH [OF rest] meal_row_def print_def)
qed

text \<open>
  Claim C9, as stated, fails on a record whose new keys are present with an empty value: the
  claim has the row show the new keys' values (\<open>spec_meal_row\<close>), while \<^verbatim>\<open>list_meals\<close>
  shows the legacy ones.
\<close>

theorem list_meals_falsy_new_key_counterexample:
  "stdout (snd (list_meals demo_env ''./test/meals.json''
                  (world_of [(''./test/meals.json'',
                              Parsed (JArr [JObj [(''timestamp'', JStr ''''),
                                                  (''date'', JStr ''[2023-05-01]''),
                                                  (''content'', JStr ''''),
                                                  (''meal'', JStr ''soup'')]]))])))
     = [''1. [2023-05-01] - soup''] \<and>
   spec_meal_row demo_env 0 [(''timestamp'', JStr ''''), (''date'', JStr ''[2023-05-01]''),
                             (''content'', JStr ''''), (''meal'', JStr ''soup'')]
     = ''1.  - ''"
  by (simp add: list_meals_def load_file_def world_of_def display_field_def py_or_def
                spec_meal_row_def spec_field_def digits.simps)

text \<open>
  Claim C9, amended. For a ledger file holding a non-empty list of dicts, \<^verbatim>\<open>list_meals\<close>
  prints one row per record, in file order, numbered from 1. The row shows the value of
  the new key (\<^verbatim>\<open>timestamp\<close>, \<^verbatim>\<open>content\<close>) when that key is present with a truthy value
  (for a string: non-empty), else the value of the legacy key (\<^verbatim>\<open>date\<close>, \<^verbatim>\<open>meal\<close>) when
  that is present with a truthy value, else the sentinel \<^verbatim>\<open>unknown date\<close> or
  \<^verbatim>\<open>unknown meal\<close>.
\<close>

theorem list_meals_rows:
  assumes "files w data_file = Some (Parsed (JArr xs))"
      and "xs \<noteq> []"
      and "\<forall>x\<in>set xs. is_dict x"
  shows "list_meals E data_file w =
           (Inr (), w\<lparr>stdout := stdout w @ map (\<lambda>(i, item). meal_row E i item) (enumerate 0 xs)\<rparr>)"
  using assms(2)
  by (simp add: list_meals_def load_file_parsed [OF assms(1)] list_meals_loop_rows [OF assms(3)])

text \<open>A new-style record, a legacy one, one with an empty timestamp and no name, an empty one.\<close>

theorem list_meals_rows_witness:
  "list_meals demo_env ''./test/meals.json''
     (world_of [(''./test/meals.json'',
                 Parsed (JArr [meal_record ''[2024-03-14]'' ''rice'',
                               JObj [(''date'', JStr ''[2023-05-01]''), (''meal'', JStr ''soup'')],
                               JObj [(''timestamp'', JStr ''''), (''date'', JStr ''[2023-05-02]''),
                                     (''note'', JStr ''no name'')],
                               JObj []]))])
   = (Inr (),
      world_of [(''./test/meals.json'',
                 Parsed (JArr [meal_record ''[2024-03-14]'' ''rice'',
                               JObj [(''date'', JStr ''[2023-05-01]''), (''meal'', JStr ''soup'')],
                               JObj [(''timestamp'', JStr ''''), (''date'', JStr ''[2023-05-02]''),
                                     (''note'', JStr ''no name'')],
                               JObj []]))]
        \<lparr>stdout := [''1. [2024-03-14] - rice'', ''2. [2023-05-01] - soup'',
                    ''3. [2023-05-02] - unknown meal'', ''4. unknown date - unknown meal'']\<rparr>)"
proof -
  let ?xs = "[meal_record ''[2024-03-14]'' ''rice'',
              JObj [(''date'', JStr ''[2023-05-01]''), (''meal'', JStr ''soup'')],
              JObj [(''timestamp'', JStr ''''), (''date'', JStr ''[2023-05-02]''),
                    (''note'', JStr ''no name'')],
              JObj []]"
  let ?w = "world_of [(''./test/meals.json'', Parsed (JArr ?xs))]"
  have present: "files ?w ''./test/meals.json'' = Some (Parsed (JArr ?xs))"
    by (simp add: world_of_def)
  have dicts: "\<forall>x\<in>set ?xs. is_dict x"
    by (simp add: is_dict_def meal_record_def)
  have out: "stdout ?w = []"
    by (simp add: world_of_def)
  have rows: "map (\<lambda>(i, item). meal_row demo_env i item) (enumerate 0 ?xs)
              = [''1. [2024-03-14] - rice'', ''2. [2023-05-01] - soup'',
                 ''3. [2023-05-02] - unknown meal'', ''4. unknown date - unknown meal'']"
    by (simp add: meal_row_def shown_field_def present_truthy_def value_at_def meal_record_def
                  digits.simps)
  from list_meals_rows [OF present _ dicts, where E = demo_env]
  show ?thesis
    by (simp only: out rows append_Nil) simp
qed

subsection \<open>Suggesting a meal\<close>

lemma content_of_SomeD:
  "content_of m = Some c \<Longrightarrow> subscript m ''content'' = Inr (JStr c)"
  by (auto simp: content_of_def split: sum.splits json.splits)

lemma content_text_Some: "content_of m = Some c \<Longrightarrow> content_text m = c"
  by (simp add: content_text_def)









subsection \<open>Adding a suggestion\<close>

lemma any_content_is_spec:
  "\<forall>s\<in>set ss. content_of s \<noteq> None \<Longrightarrow>
   any_content_is E x ss = Inr (\<exists>s\<in>set ss. matches E x s)"
proof (induction ss)
  case Nil
  then show ?case by simp
next
  case (Cons s ss)
  then obtain c where c: "content_of s = Some c" by auto
  from Cons have rest: "any_content_is E x ss = Inr (\<exists>s\<in>set ss. matches E x s)"
    by simp
  show ?case
    by (simp add: content_of_SomeD [OF c] content_text_Some [OF c] rest matches_def)
qed

lemma add_suggestion_existing:
  assumes "fst (load_file sf w) = Inr (JArr ss)"
      and "\<forall>s\<in>set ss. content_of s \<noteq> None"
      and "\<exists>s\<in>set ss. matches E x s"
  shows "add_suggestion E x sf w =
           (Inr (), print (''Suggestion '' @ [CHR 0x27] @ x @ [CHR 0x27] @ '' already exists.'') w)"
  using assms(3)
  by (simp add: add_suggestion_def load_file_list [OF assms(1)] any_content_is_spec [OF assms(2)])

lemma add_suggestion_new:
  assumes "fst (load_file sf w) = Inr (JArr ss)"
      and "\<forall>s\<in>set ss. content_of s \<noteq> None"
      and "\<not> (\<exists>s\<in>set ss. matches E x s)"
      and "dirname sf \<noteq> []"
  shows "add_suggestion E x sf w =
           (Inr (), print (''Added suggestion: '' @ x)
                      (write_file sf (Parsed (JArr (ss @ [suggestion_record x])))
                         (case files w sf of None \<Rightarrow> w
                          | Some c \<Rightarrow> write_file (backup_path sf) c w)))"
  using assms(3)
  by (simp add: add_suggestion_def load_file_list [OF assms(1)] any_content_is_spec [OF assms(2)]
                save_file_ok [OF assms(4)] suggestion_record_def)

lemma content_of_suggestion_record [simp]: "content_of (suggestion_record x) = Some x"
  by (simp add: content_of_def suggestion_record_def)

lemma matches_suggestion_record [simp]: "matches E x (suggestion_record x)"
  by (simp add: matches_def content_text_def)

lemma no_match_filter: "\<not> (\<exists>s\<in>set ss. matches E x s) \<Longrightarrow> filter (matches E x) ss = []"
  by (simp add: filter_empty_conv)

lemma one_match_length:
  "\<exists>s\<in>set ss. matches E x s \<Longrightarrow> length (filter (matches E x) ss) \<le> 1 \<Longrightarrow>
   length (filter (matches E x) ss) = 1"
proof -
  assume "\<exists>s\<in>set ss. matches E x s"
  then have "filter (matches E x) ss \<noteq> []"
    by (simp add: filter_empty_conv)
  then have "0 < length (filter (matches E x) ss)"
    by simp
  moreover assume "length (filter (matches E x) ss) \<le> 1"
  ultimately show ?thesis by arith
qed

text \<open>
  Claim C7. Let the suggestion file load as a list of records with a string content (a
  missing file loads as the empty list) in which at most one content equals \<open>x\<close> up to
  case, as the uniqueness invariant of the suggestion file has it, at a path with a
  directory part. After two calls of \<^verbatim>\<open>add_suggestion\<close> with \<open>x\<close> the file holds a list with
  exactly one such content. The first call, when no content matches, appends the record
  of \<open>x\<close> and writes the list (after the backup copy); when one matches it prints
  \<^verbatim>\<open>already exists\<close> and leaves the world otherwise as it was. The second call finds a
  match, prints \<^verbatim>\<open>already exists\<close> and writes no file.
\<close>

theorem add_suggestion_twice:
  assumes "fst (load_file suggestion_file w) = Inr (JArr ss)"
      and "\<forall>s\<in>set ss. content_of s \<noteq> None"
      and "length (filter (matches E x) ss) \<le> 1"
      and "dirname suggestion_file \<noteq> []"
  shows "(let already = (\<exists>s\<in>set ss. matches E x s);
              ss' = (if already then ss else ss @ [suggestion_record x]);
              w1 = snd (add_suggestion E x suggestion_file w);
              w2 = snd (add_suggestion E x suggestion_file w1)
          in fst (load_file suggestion_file w2) = Inr (JArr ss') \<and>
             length (filter (matches E x) ss') = 1 \<and>
             add_suggestion E x suggestion_file w =
               (if already
                then (Inr (), print (''Suggestion '' @ [CHR 0x27] @ x @ [CHR 0x27]
                                     @ '' already exists.'') w)
                else (Inr (), print (''Added suggestion: '' @ x)
                                (write_file suggestion_file (Parsed (JArr ss'))
                                   (case files w suggestion_file of None \<Rightarrow> w
                                    | Some c \<Rightarrow> write_file (backup_path suggestion_file) c w)))) \<and>
             add_suggestion E x suggestion_file w1 =
               (Inr (), print (''Suggestion '' @ [CHR 0x27] @ x @ [CHR 0x27]
                               @ '' already exists.'') w1) \<and>
             files w2 = files w1)"
proof -
  define exists_msg where
    "exists_msg = ''Suggestion '' @ [CHR 0x27] @ x @ [CHR 0x27] @ '' already exists.''"
  define added_msg where "added_msg = ''Added suggestion: '' @ x"
  show ?thesis
    unfolding exists_msg_def [symmetric] added_msg_def [symmetric]
  proof (cases "\<exists>s\<in>set ss. matches E x s")
    case True
    have first: "add_suggestion E x suggestion_file w = (Inr (), print exists_msg w)"
      unfolding exists_msg_def by (rule add_suggestion_existing [OF assms(1,2) True])
    have l1: "fst (load_file suggestion_file (print exists_msg w)) = Inr (JArr ss)"
      using assms(1) by (simp add: load_file_def split: option.splits file_content.splits)
    have second: "add_suggestion E x suggestion_file (print exists_msg w)
                  = (Inr (), print exists_msg (print exists_msg w))"
      unfolding exists_msg_def
      by (rule add_suggestion_existing [OF l1 [unfolded exists_msg_def] assms(2) True])
    have l2: "fst (load_file suggestion_file (print exists_msg (print exists_msg w))) = Inr (JArr ss)"
      using assms(1) by (simp add: load_file_def split: option.splits file_content.splits)
    show "let already = \<exists>s\<in>set ss. matches E x s;
              ss' = if already then ss else ss @ [suggestion_record x];
              w1 = snd (add_suggestion E x suggestion_file w);
              w2 = snd (add_suggestion E x suggestion_file w1)
          in fst (load_file suggestion_file w2) = Inr (JArr ss') \<and>
             length (filter (matches E x) ss') = 1 \<and>
             add_suggestion E x suggestion_file w =
               (if already then (Inr (), print exists_msg w)
                else (Inr (), print added_msg
                                (write_file suggestion_file (Parsed (JArr ss'))
                                   (case files w suggestion_file of None \<Rightarrow> w
                                    | Some c \<Rightarrow> write_file (backup_path suggestion_file) c w)))) \<and>
             add_suggestion E x suggestion_file w1 = (Inr (), print exists_msg w1) \<and>
             files w2 = files w1"
      using True one_match_length [OF True assms(3)]
      by (simp add: Let_def first second l2)
  next
    case False
    let ?ss' = "ss @ [suggestion_record x]"
    let ?w1 = "print added_msg
                 (write_file suggestion_file (Parsed (JArr ?ss'))
                    (case files w suggestion_file of None \<Rightarrow> w
                     | Some c \<Rightarrow> write_file (backup_path suggestion_file) c w))"
    have first: "add_suggestion E x suggestion_file w = (Inr (), ?w1)"
      unfolding added_msg_def by (rule add_suggestion_new [OF assms(1,2) False assms(4)])
    have l1: "fst (load_file suggestion_file ?w1) = Inr (JArr ?ss')"
      by (simp add: load_file_def)
    have wf: "\<forall>s\<in>set ?ss'. content_of s \<noteq> None"
      using assms(2) by simp
    have found: "\<exists>s\<in>set ?ss'. matches E x s"
      by simp
    have second: "add_suggestion E x suggestion_file ?w1 = (Inr (), print exists_msg ?w1)"
      unfolding exists_msg_def
      by (rule add_suggestion_existing [OF l1 [unfolded added_msg_def] wf found,
                                        folded added_msg_def])
    have l2: "fst (load_file suggestion_file (print exists_msg ?w1)) = Inr (JArr ?ss')"
      by (simp add: load_file_def)
    have one: "length (filter (matches E x) ?ss') = 1"
      by (simp add: no_match_filter [OF False])
    show "let already = \<exists>s\<in>set ss. matches E x s;
              ss' = if already then ss else ss @ [suggestion_record x];
              w1 = snd (add_suggestion E x suggestion_file w);
              w2 = snd (add_suggestion E x suggestion_file w1)
          in fst (load_file suggestion_file w2) = Inr (JArr ss') \<and>
             length (filter (matches E x) ss') = 1 \<and>
             add_suggestion E x suggestion_file w =
               (if already then (Inr (), print exists_msg w)
                else (Inr (), print added_msg
                                (write_file suggestion_file (Parsed (JArr ss'))
                                   (case files w suggestion_file of None \<Rightarrow> w
                                    | Some c \<Rightarrow> write_file (backup_path suggestion_file) c w)))) \<and>
             add_suggestion E x suggestion_file w1 = (Inr (), print exists_msg w1) \<and>
             files w2 = files w1"
      using False one
      by (simp add: Let_def first second l2 del: files_write_file)
  qed
qed


text \<open>
  \<^verbatim>\<open>addsuggest pasta\<close> twice on the suggestions \<^verbatim>\<open>[Pasta]\<close>, and \<^verbatim>\<open>addsuggest eggs\<close> twice
  with no suggestion file.
\<close>

theorem add_suggestion_twice_witness:
  "fst (load_file ''./test/suggestion.json''
          (snd (add_suggestion demo_env ''pasta'' ''./test/suggestion.json''
                  (snd (add_suggestion demo_env ''pasta'' ''./test/suggestion.json''
                          (world_of [(''./test/suggestion.json'',
                                      Parsed (JArr [suggestion_record ''Pasta'']))]))))))
     = Inr (JArr [suggestion_record ''Pasta'']) \<and>
   fst (load_file ''./test/suggestion.json''
          (snd (add_suggestion demo_env ''eggs'' ''./test/suggestion.json''
                  (snd (add_suggestion demo_env ''eggs'' ''./test/suggestion.json''
                          (world_of []))))))
     = Inr (JArr [suggestion_record ''eggs'']) \<and>
   stdout (snd (add_suggestion demo_env ''eggs'' ''./test/suggestion.json''
                  (snd (add_suggestion demo_env ''eggs'' ''./test/suggestion.json''
                          (world_of [])))))
     = [''Added suggestion: eggs'', ''Suggestion '' @ [CHR 0x27] @ ''eggs'' @ [CHR 0x27]
                                      @ '' already exists.'']"
proof -
  let ?sf = "''./test/suggestion.json''"
  let ?w = "world_of [(?sf, Parsed (JArr [suggestion_record ''Pasta'']))]"
  have l: "fst (load_file ?sf ?w) = Inr (JArr [suggestion_record ''Pasta''])"
    by (simp add: load_file_def world_of_def)
  have l0: "fst (load_file ?sf (world_of [])) = Inr (JArr [])"
    by (simp add: load_file_def world_of_def)
  have wf: "\<forall>s\<in>set [suggestion_record ''Pasta'']. content_of s \<noteq> None"
    by simp
  have wf0: "\<forall>s\<in>set ([] :: json list). content_of s \<noteq> None"
    by simp
  have once: "length (filter (matches demo_env ''pasta'') [suggestion_record ''Pasta'']) \<le> 1"
    by simp
  have once0: "length (filter (matches demo_env ''eggs'') []) \<le> 1"
    by simp
  have dir: "dirname ?sf \<noteq> []"
    by (simp add: default_paths)
  have found: "matches demo_env ''pasta'' (suggestion_record ''Pasta'')"
    by (simp add: matches_def content_text_def demo_env_def ascii_lower_def)
  have out: "stdout (world_of []) = []" "files (world_of []) ?sf = None"
    by (simp_all add: world_of_def)
  have ex: "\<exists>s\<in>set [suggestion_record ''Pasta'']. matches demo_env ''pasta'' s"
    using found by simp
  have nex: "\<not> (\<exists>s\<in>set ([] :: json list). matches demo_env ''eggs'' s)"
    by simp
  note t = add_suggestion_twice [OF l wf once dir, unfolded Let_def if_P [OF ex]]
  note t0 = add_suggestion_twice [OF l0 wf0 once0 dir, unfolded Let_def if_not_P [OF nex]]
  from t have a: "fst (load_file ?sf (snd (add_suggestion demo_env ''pasta'' ?sf
                                      (snd (add_suggestion demo_env ''pasta'' ?sf ?w)))))
           = Inr (JArr [suggestion_record ''Pasta''])"
    by (rule conjunct1)
  have b: "fst (load_file ?sf (snd (add_suggestion demo_env ''eggs'' ?sf
                                      (snd (add_suggestion demo_env ''eggs'' ?sf (world_of []))))))
           = Inr (JArr [suggestion_record ''eggs''])"
    by (rule t0 [THEN conjunct1, unfolded append_Nil])
  from t0 have e1: "add_suggestion demo_env ''eggs'' ?sf (world_of [])
      = (Inr (), print (''Added suggestion: '' @ ''eggs'')
                   (write_file ?sf (Parsed (JArr ([] @ [suggestion_record ''eggs''])))
                      (case files (world_of []) ?sf of None \<Rightarrow> world_of []
                       | Some c \<Rightarrow> write_file (backup_path ?sf) c (world_of []))))"
    and e2: "add_suggestion demo_env ''eggs'' ?sf
               (snd (add_suggestion demo_env ''eggs'' ?sf (world_of [])))
      = (Inr (), print (''Suggestion '' @ [CHR 0x27] @ ''eggs'' @ [CHR 0x27] @ '' already exists.'')
                   (snd (add_suggestion demo_env ''eggs'' ?sf (world_of []))))"
    by blast+
  have c: "stdout (snd (add_suggestion demo_env ''eggs'' ?sf
                          (snd (add_suggestion demo_env ''eggs'' ?sf (world_of [])))))
           = [''Added suggestion: eggs'', ''Suggestion '' @ [CHR 0x27] @ ''eggs'' @ [CHR 0x27]
                                            @ '' already exists.'']"
    by (simp add: e2) (simp add: e1 out)
  from a b c show ?thesis by blast
qed

end
